theory Spec2Isabelle
  imports Main
begin

text \<open>
  A shallow embedding of \<open>aws/resource_aws_lb.go\<close>, the load balancer resource of the
  Terraform AWS provider: the replacement decision of the plan, the decoding of the
  remote record, and the create, read, update and delete operations with the calls they
  send to the remote service.
\<close>

section \<open>Errors\<close>

text \<open>
  Go's \<open>error\<close> values. The provider tells apart the remote "not found" error and the
  SDK's timeout error; every other remote failure is an opaque API error. \<open>fmt.Errorf\<close>
  makes an error from a format and its string arguments, or wraps a cause with them.
\<close>

datatype error =
    LoadBalancerNotFound
  | TimeoutError
  | ApiError string
  | Errorf string "string list"
  | Wrap string "string list" error

section \<open>The replacement decision: \<open>customizeDiffNLBSubnets\<close>\<close>

text \<open>
  The part of \<open>schema.ResourceDiff\<close> the function reads and writes: the resource type,
  the id, the old and new value of \<open>subnets\<close> as \<open>GetChange\<close> returns them (an
  \<open>interface{}\<close> that may be \<open>nil\<close>: \<open>None\<close>), and the keys marked ForceNew so far.
  A \<open>schema.Set\<close> of strings is the list of its elements, compared as a set.
\<close>

record ResourceDiff =
  diff_load_balancer_type :: string
  diff_Id :: string
  diff_subnets_old :: "string list option"
  diff_subnets_new :: "string list option"
  diff_forceNew :: "string list"

text \<open>
  \<open>SetNew\<close> and \<open>ForceNew\<close> are methods of the plugin SDK; whether they return an error
  is an input of the model.
\<close>

record diff_sdk =
  SetNew_result :: "error option"
  ForceNew_result :: "error option"

definition LoadBalancerTypeEnumApplication :: string where
  "LoadBalancerTypeEnumApplication = ''application''"

definition LoadBalancerTypeEnumNetwork :: string where
  "LoadBalancerTypeEnumNetwork = ''network''"

definition LoadBalancerTypeEnumGateway :: string where
  "LoadBalancerTypeEnumGateway = ''gateway''"

text \<open>\<open>s.Difference(t).List()\<close>: the elements of \<open>s\<close> that are not in \<open>t\<close>.\<close>

definition Difference :: "string list \<Rightarrow> string list \<Rightarrow> string list" where
  "Difference s t = filter (\<lambda>x. x \<notin> set t) s"

text \<open>\<open>if o == nil { o = new(schema.Set) }\<close>\<close>

definition orEmptySet :: "string list option \<Rightarrow> string list" where
  "orEmptySet v = (case v of None \<Rightarrow> [] | Some s \<Rightarrow> s)"

text \<open>Lines 795-835.\<close>

definition customizeDiffNLBSubnets :: "diff_sdk \<Rightarrow> ResourceDiff \<Rightarrow> error + ResourceDiff" where
  "customizeDiffNLBSubnets sdk diff =
     (if diff_load_balancer_type diff \<noteq> LoadBalancerTypeEnumNetwork then Inr diff
      else if diff_Id diff = [] then Inr diff
      else
        let os = orEmptySet (diff_subnets_old diff);
            ns = orEmptySet (diff_subnets_new diff);
            remove = Difference os ns;
            add = Difference ns os
        in if length remove > 0 \<or> length add > 0 then
             (case SetNew_result sdk of
                Some err \<Rightarrow> Inl err
              | None \<Rightarrow>
                 (case ForceNew_result sdk of
                    Some err \<Rightarrow> Inl err
                  | None \<Rightarrow>
                     Inr (diff\<lparr>diff_subnets_new := Some ns,
                               diff_forceNew := diff_forceNew diff @ [''subnets'']\<rparr>)))
           else Inr diff)"

section \<open>Regular expressions\<close>

text \<open>
  The two patterns of the file, \<^verbatim>\<open>([^/]+/[^/]+/[^/]+)$\<close> and
  \<^verbatim>\<open>arn:.*:loadbalancer/(.*)\<close>, are sequences of items: one character of a class, a
  greedy repetition of a class, the two ends of the capture group, and the end of the
  text. A class is a literal character, \<^verbatim>\<open>.\<close> (any character but the newline) or
  \<^verbatim>\<open>[^c]\<close> (any character but \<open>c\<close>, the newline included). Strings are byte strings;
  on bytes these classes accept what they accept on the runes of a UTF-8 string.

  \<open>rmatch\<close> matches at one position as Go's \<open>regexp\<close> does: the first match a
  backtracking search finds, a repetition taking as much as it can first. It returns the
  end of the match and the positions of the group ends. \<open>find_from\<close> takes the leftmost
  position where there is a match.
\<close>

datatype cls = Lit char | AnyChar | NotLit char

fun cls_match :: "cls \<Rightarrow> char \<Rightarrow> bool" where
  "cls_match (Lit c) x = (x = c)"
| "cls_match AnyChar x = (x \<noteq> CHR 0x0A)"
| "cls_match (NotLit c) x = (x \<noteq> c)"

datatype item = One cls | Star cls | Plus cls | GroupOpen | GroupClose | EndText

fun rmatch :: "item list \<Rightarrow> string \<Rightarrow> nat \<Rightarrow> nat list \<Rightarrow> (nat \<times> nat list) option" where
  "rmatch [] s i g = Some (i, g)"
| "rmatch (One c # r) [] i g = None"
| "rmatch (One c # r) (x # xs) i g = (if cls_match c x then rmatch r xs (Suc i) g else None)"
| "rmatch (Star c # r) [] i g = rmatch r [] i g"
| "rmatch (Star c # r) (x # xs) i g =
     (if cls_match c x then
        (case rmatch (Star c # r) xs (Suc i) g of
           Some m \<Rightarrow> Some m
         | None \<Rightarrow> rmatch r (x # xs) i g)
      else rmatch r (x # xs) i g)"
| "rmatch (Plus c # r) [] i g = None"
| "rmatch (Plus c # r) (x # xs) i g =
     (if cls_match c x then rmatch (Star c # r) xs (Suc i) g else None)"
| "rmatch (GroupOpen # r) s i g = rmatch r s i (g @ [i])"
| "rmatch (GroupClose # r) s i g = rmatch r s i (g @ [i])"
| "rmatch (EndText # r) s i g = (if s = [] then rmatch r s i g else None)"

fun find_from :: "item list \<Rightarrow> string \<Rightarrow> nat \<Rightarrow> (nat \<times> nat \<times> nat list) option" where
  "find_from re [] i = (case rmatch re [] i [] of Some (e, g) \<Rightarrow> Some (i, e, g) | None \<Rightarrow> None)"
| "find_from re (x # xs) i =
     (case rmatch re (x # xs) i [] of
        Some (e, g) \<Rightarrow> Some (i, e, g)
      | None \<Rightarrow> find_from re xs (Suc i))"

definition substr :: "string \<Rightarrow> nat \<Rightarrow> nat \<Rightarrow> string" where
  "substr s a b = take (b - a) (drop a s)"

fun pairs :: "string \<Rightarrow> nat list \<Rightarrow> string list" where
  "pairs s (a # b # g) = substr s a b # pairs s g"
| "pairs s g = []"

definition submatches :: "string \<Rightarrow> nat \<times> nat \<times> nat list \<Rightarrow> string list" where
  "submatches s m = (case m of (b, e, g) \<Rightarrow> substr s b e # pairs s g)"

definition FindStringSubmatch :: "item list \<Rightarrow> string \<Rightarrow> string list" where
  "FindStringSubmatch re s =
     (case find_from re s 0 of None \<Rightarrow> [] | Some m \<Rightarrow> submatches s m)"

lemma rmatch_end: "rmatch re s i g = Some (e, g') \<Longrightarrow> i \<le> e"
  by (induction re s i g rule: rmatch.induct) (auto split: if_splits option.splits)

lemma find_from_end: "find_from re s i = Some (b, e, g) \<Longrightarrow> i \<le> b \<and> b \<le> e"
  by (induction re s i rule: find_from.induct) (auto split: option.splits dest: rmatch_end)

text \<open>
  The loop of \<open>FindAll\<close> (\<open>allMatches\<close> in Go's \<open>regexp\<close>): the search moves on from
  the end of each match; an empty match moves it on by one, and is left out when it
  touches the match before it (neither pattern of the file has an empty match).
\<close>

function allMatches :: "item list \<Rightarrow> string \<Rightarrow> nat \<Rightarrow> nat option \<Rightarrow> (nat \<times> nat \<times> nat list) list" where
  "allMatches re s pos prevMatchEnd =
     (if pos > length s then []
      else
        (case find_from re (drop pos s) pos of
           None \<Rightarrow> []
         | Some (b, e, g) \<Rightarrow>
             (if e = pos then
                (if Some b = prevMatchEnd then [] else [(b, e, g)])
                  @ allMatches re s (pos + 1) (Some e)
              else (b, e, g) # allMatches re s e (Some e))))"
  by pat_completeness auto
termination
  by (relation "measure (\<lambda>(re, s, pos, prev). Suc (length s) - pos)")
     (auto dest!: find_from_end)

definition FindAllStringSubmatch :: "item list \<Rightarrow> string \<Rightarrow> string list list" where
  "FindAllStringSubmatch re s = map (submatches s) (allMatches re s 0 None)"

definition lits :: "string \<Rightarrow> item list" where
  "lits w = map (\<lambda>c. One (Lit c)) w"

text \<open>\<open>getLbNameFromArn\<close> (lines 650-659) and \<open>lbSuffixFromARN\<close> (lines 689-701).\<close>

definition re_lb_name :: "item list" where
  "re_lb_name =
     [GroupOpen, Plus (NotLit CHR ''/''), One (Lit CHR ''/''), Plus (NotLit CHR ''/''),
      One (Lit CHR ''/''), Plus (NotLit CHR ''/''), GroupClose, EndText]"

definition re_lb_suffix :: "item list" where
  "re_lb_suffix =
     lits ''arn:'' @ [Star AnyChar] @ lits '':loadbalancer/'' @ [GroupOpen, Star AnyChar, GroupClose]"

definition getLbNameFromArn :: "string \<Rightarrow> error + string" where
  "getLbNameFromArn arn =
     (case FindStringSubmatch re_lb_name arn of
        [m0, m1] \<Rightarrow> Inr m1
      | _ \<Rightarrow> Inl (Errorf ''Unexpected ARN format: %q'' [arn]))"

definition lbSuffixFromARN :: "string option \<Rightarrow> string" where
  "lbSuffixFromARN arn =
     (case arn of
        None \<Rightarrow> []
      | Some a \<Rightarrow>
          (case FindAllStringSubmatch re_lb_suffix a of
             [[m0, m1]] \<Rightarrow> m1
           | _ \<Rightarrow> []))"


section \<open>Remote wire shapes\<close>

text \<open>
  The records of the ELBv2 API that the resource reads and writes. A Go \<open>*string\<close> is a
  \<open>string option\<close> (\<open>nil\<close> is \<open>None\<close>); \<open>aws.String\<close> is \<open>Some\<close> and
  \<open>aws.StringValue\<close> reads \<open>nil\<close> as the empty string. A slice that may be \<open>nil\<close> in a
  request is an optional list. The security groups of a record are plain strings:
  \<open>flattenStringList\<close> dereferences each of them.
\<close>

definition StringValue :: "string option \<Rightarrow> string" where
  "StringValue p = (case p of None \<Rightarrow> [] | Some s \<Rightarrow> s)"

type_synonym tags = "(string \<times> string) list"

record LoadBalancerAddress =
  AllocationId :: "string option"
  PrivateIPv4Address :: "string option"
  IPv6Address :: "string option"

record AvailabilityZone =
  SubnetId :: "string option"
  OutpostId :: "string option"
  LoadBalancerAddresses :: "LoadBalancerAddress list"

record LoadBalancer =
  LoadBalancerArn :: "string option"
  LoadBalancerName :: "string option"
  Scheme :: "string option"
  SecurityGroups :: "string list"
  VpcId :: "string option"
  CanonicalHostedZoneId :: "string option"
  DNSName :: "string option"
  IpAddressType :: "string option"
  Type :: "string option"
  CustomerOwnedIpv4Pool :: "string option"
  AvailabilityZones :: "AvailabilityZone list"

record LoadBalancerAttribute =
  Key :: "string option"
  Value :: "string option"

record SubnetMapping =
  SubnetMapping_SubnetId :: "string option"
  SubnetMapping_AllocationId :: "string option"
  SubnetMapping_PrivateIPv4Address :: "string option"
  SubnetMapping_IPv6Address :: "string option"

record CreateLoadBalancerInput =
  Input_Name :: "string option"
  Input_Type :: "string option"
  Input_Tags :: "tags option"
  Input_Scheme :: "string option"
  Input_SecurityGroups :: "string list option"
  Input_Subnets :: "string list option"
  Input_SubnetMappings :: "SubnetMapping list option"
  Input_IpAddressType :: "string option"
  Input_CustomerOwnedIpv4Pool :: "string option"

text \<open>A network interface of the EC2 API, by its id, and a filter of a describe call.\<close>

type_synonym NetworkInterface = string

type_synonym Filter = "string \<times> string list"

section \<open>The resource data\<close>

text \<open>
  The fields of the schema (lines 41-245), typed. A \<open>TypeSet\<close> of strings is the list of
  its elements and is compared as a set; \<open>access_logs\<close> is a list of at most one block,
  and a block of the list may be \<open>nil\<close>. \<open>tags\<close> is a map, written as the list of its
  entries and compared as a map.
\<close>

record access_logs_elem =
  bucket :: string
  enabled :: bool
  prefix :: string

record subnet_mapping_elem =
  subnet_id :: string
  ipv6_address :: string
  outpost_id :: string
  allocation_id :: string
  private_ipv4_address :: string

record lb_fields =
  arn :: string
  arn_suffix :: string
  name :: string
  name_prefix :: string
  internal :: bool
  load_balancer_type :: string
  security_groups :: "string list"
  subnets :: "string list"
  subnet_mapping :: "subnet_mapping_elem list"
  access_logs :: "access_logs_elem option list"
  enable_deletion_protection :: bool
  idle_timeout :: int
  drop_invalid_header_fields :: bool
  enable_cross_zone_load_balancing :: bool
  enable_http2 :: bool
  ip_address_type :: string
  customer_owned_ipv4_pool :: string
  vpc_id :: string
  zone_id :: string
  dns_name :: string
  tags :: tags

text \<open>
  \<open>schema.ResourceData\<close>: the id, the new-resource mark, the prior state and the planned
  state (what \<open>GetChange\<close> returns as old and new, and \<open>HasChange\<close> compares), and the
  current view \<open>rd_cur\<close> that \<open>d.Get\<close> reads and \<open>d.Set\<close> writes. The two timeouts are
  the number of status reads that fit before the deadline of \<open>d.Timeout\<close>.
\<close>

record ResourceData =
  rd_Id :: string
  rd_IsNewResource :: bool
  rd_state :: lb_fields
  rd_plan :: lb_fields
  rd_cur :: lb_fields
  rd_TimeoutCreate :: nat
  rd_TimeoutUpdate :: nat

text \<open>Two maps, each written as the list of its entries, are the same map.\<close>

definition sameMap :: "tags \<Rightarrow> tags \<Rightarrow> bool" where
  "sameMap s t = (\<forall>k \<in> set (map fst s) \<union> set (map fst t). map_of s k = map_of t k)"

definition HasChange :: "ResourceData \<Rightarrow> string \<Rightarrow> bool" where
  "HasChange d k =
     (let old = rd_state d; new = rd_plan d in
      if k = ''tags'' then \<not> sameMap (tags old) (tags new)
      else if k = ''access_logs'' then access_logs old \<noteq> access_logs new
      else if k = ''idle_timeout'' then idle_timeout old \<noteq> idle_timeout new
      else if k = ''enable_http2'' then enable_http2 old \<noteq> enable_http2 new
      else if k = ''drop_invalid_header_fields'' then
        drop_invalid_header_fields old \<noteq> drop_invalid_header_fields new
      else if k = ''enable_cross_zone_load_balancing'' then
        enable_cross_zone_load_balancing old \<noteq> enable_cross_zone_load_balancing new
      else if k = ''enable_deletion_protection'' then
        enable_deletion_protection old \<noteq> enable_deletion_protection new
      else if k = ''security_groups'' then set (security_groups old) \<noteq> set (security_groups new)
      else if k = ''subnets'' then set (subnets old) \<noteq> set (subnets new)
      else if k = ''ip_address_type'' then ip_address_type old \<noteq> ip_address_type new
      else False)"

text \<open>\<open>d.Set\<close>: an update of the current view.\<close>

definition Set_fields :: "ResourceData \<Rightarrow> (lb_fields \<Rightarrow> lb_fields) \<Rightarrow> ResourceData" where
  "Set_fields d upd = d\<lparr>rd_cur := upd (rd_cur d)\<rparr>"

section \<open>The remote service and the rest of the provider\<close>

text \<open>
  Every call that leaves the file is recorded, in order. The answer to a call is an
  input of the model: a function of the calls made so far, the call itself last, so that
  an answer may depend on the request and on what happened before it.
\<close>

datatype call =
    CreateLoadBalancer CreateLoadBalancerInput
  | DescribeLoadBalancers "string list"
  | RefreshLoadBalancerState string
  | UpdateTags string tags tags
  | ListTags string
  | ModifyLoadBalancerAttributes string "LoadBalancerAttribute list"
  | DescribeLoadBalancerAttributes string
  | SetSecurityGroups string "string list"
  | SetSubnets string "string list"
  | SetIpAddressType string string
  | DeleteLoadBalancer string
  | DescribeNetworkInterfaces "Filter list"
  | DetachNetworkInterfaces "NetworkInterface list"
  | DeleteNetworkInterfaces "NetworkInterface list"

record meta =
  r_CreateLoadBalancer :: "call list \<Rightarrow> error + LoadBalancer list"
  r_DescribeLoadBalancers :: "call list \<Rightarrow> error + LoadBalancer list"
  r_LoadBalancerState :: "call list \<Rightarrow> error + string"
  r_Elbv2UpdateTags :: "call list \<Rightarrow> error option"
  r_Elbv2ListTags :: "call list \<Rightarrow> error + tags"
  r_ModifyLoadBalancerAttributes :: "call list \<Rightarrow> error option"
  r_DescribeLoadBalancerAttributes :: "call list \<Rightarrow> error + LoadBalancerAttribute list"
  r_SetSecurityGroups :: "call list \<Rightarrow> error option"
  r_SetSubnets :: "call list \<Rightarrow> error option"
  r_SetIpAddressType :: "call list \<Rightarrow> error option"
  r_DeleteLoadBalancer :: "call list \<Rightarrow> error option"
  r_DescribeNetworkInterfaces :: "call list \<Rightarrow> error + NetworkInterface list"
  r_detachNetworkInterfaces :: "call list \<Rightarrow> error option"
  r_deleteNetworkInterfaces :: "call list \<Rightarrow> error option"
  PrefixedUniqueId :: "string \<Rightarrow> string"
  IgnoreAws :: "tags \<Rightarrow> tags"
  IgnoreConfig :: "tags \<Rightarrow> tags"
  RetryAttempts :: nat
  RetryTimeout :: "error option \<Rightarrow> error"

definition invoke :: "(call list \<Rightarrow> 'r) \<Rightarrow> call \<Rightarrow> call list \<Rightarrow> 'r \<times> call list" where
  "invoke answer c tr = (answer (tr @ [c]), tr @ [c])"

text \<open>
  Modelled from the spec: \<open>isLoadBalancerNotFound\<close> and \<open>isResourceTimeoutError\<close> are
  functions of other files of the provider. Section 7 of the specification: a read that
  finds the remote resource absent gets the not-found error, and a wait whose deadline
  is exceeded gets the timeout error; the two functions recognise these two errors.
\<close>

definition isLoadBalancerNotFound :: "error \<Rightarrow> bool" where
  "isLoadBalancerNotFound err = (err = LoadBalancerNotFound)"

definition isResourceTimeoutError :: "error option \<Rightarrow> bool" where
  "isResourceTimeoutError err = (err = Some TimeoutError)"

text \<open>
  Modelled from the spec: \<open>waiter.LoadBalancerActive\<close> of the package
  \<open>aws/internal/service/elbv2/waiter\<close>, which is not among the source files. Section 4.4
  of the specification: the status is read again and again; the wait succeeds when the
  status is \<open>active\<close>, fails at once on an error of the read, and fails with a timeout
  error when the deadline is reached, after which nothing more is read. The deadline is
  the number of reads that fit before it.
\<close>

fun LoadBalancerActive :: "meta \<Rightarrow> string \<Rightarrow> nat \<Rightarrow> call list \<Rightarrow> error option \<times> call list" where
  "LoadBalancerActive m lbArn 0 tr = (Some TimeoutError, tr)"
| "LoadBalancerActive m lbArn (Suc n) tr =
     (case invoke (r_LoadBalancerState m) (RefreshLoadBalancerState lbArn) tr of
        (Inl err, tr') \<Rightarrow> (Some err, tr')
      | (Inr status, tr') \<Rightarrow>
          if status = ''active'' then (None, tr') else LoadBalancerActive m lbArn n tr')"

text \<open>
  \<open>resource.Retry\<close> of the plugin SDK: the function is tried until it succeeds, fails
  with an error that is not retryable, or the time is up. The number of attempts that
  fit in the time and the error the SDK returns when the time is up (from the last
  retryable error, if there was one) are inputs of the model.
\<close>

datatype RetryError = RetryableError error | NonRetryableError error

fun Retry :: "meta \<Rightarrow> nat \<Rightarrow> error option \<Rightarrow> (call list \<Rightarrow> RetryError option \<times> call list) \<Rightarrow>
    call list \<Rightarrow> error option \<times> call list" where
  "Retry m 0 lastErr f tr = (Some (RetryTimeout m lastErr), tr)"
| "Retry m (Suc n) lastErr f tr =
     (case f tr of
        (None, tr') \<Rightarrow> (None, tr')
      | (Some (NonRetryableError err), tr') \<Rightarrow> (Some err, tr')
      | (Some (RetryableError err), tr') \<Rightarrow> Retry m n (Some err) f tr')"

section \<open>Formatting and parsing\<close>

text \<open>
  \<open>strconv.FormatBool\<close> (and \<open>fmt.Sprintf("%t", b)\<close>), \<open>fmt.Sprintf("%d", n)\<close> and
  \<open>strconv.Atoi\<close>. Go's \<open>int\<close> has 64 bits here. \<open>Atoi\<close> accepts one sign and then
  decimal digits, at least one, of a value in range; its two errors (syntax, range) are
  one error of the model.
\<close>

definition FormatBool :: "bool \<Rightarrow> string" where
  "FormatBool b = (if b then ''true'' else ''false'')"

definition digit_char :: "nat \<Rightarrow> char" where
  "digit_char n = ''0123456789'' ! (n mod 10)"

fun decimal :: "nat \<Rightarrow> string" where
  "decimal n = (if n < 10 then [digit_char n] else decimal (n div 10) @ [digit_char n])"

declare decimal.simps [simp del]

definition Sprintf_d :: "int \<Rightarrow> string" where
  "Sprintf_d i = (if i < 0 then CHR ''-'' # decimal (nat (- i)) else decimal (nat i))"

definition digit_value :: "char \<Rightarrow> nat option" where
  "digit_value c =
     map_of [(CHR ''0'', 0), (CHR ''1'', 1), (CHR ''2'', 2), (CHR ''3'', 3), (CHR ''4'', 4),
             (CHR ''5'', 5), (CHR ''6'', 6), (CHR ''7'', 7), (CHR ''8'', 8), (CHR ''9'', 9)] c"

fun digits_value :: "string \<Rightarrow> nat \<Rightarrow> nat option" where
  "digits_value [] acc = Some acc"
| "digits_value (c # cs) acc =
     (case digit_value c of
        None \<Rightarrow> None
      | Some v \<Rightarrow> digits_value cs (10 * acc + v))"

definition Atoi :: "string \<Rightarrow> error + int" where
  "Atoi s =
     (let neg = (case s of [] \<Rightarrow> False | c # r \<Rightarrow> c = CHR ''-'');
          body = (case s of [] \<Rightarrow> [] | c # r \<Rightarrow> if c = CHR ''-'' \<or> c = CHR ''+'' then r else s)
      in if body = [] then Inl (Errorf ''strconv.Atoi: parsing %q'' [s])
         else
           (case digits_value body 0 of
              None \<Rightarrow> Inl (Errorf ''strconv.Atoi: parsing %q'' [s])
            | Some n \<Rightarrow>
                let v = (if neg then - int n else int n) in
                if v < - (2 ^ 63) \<or> 2 ^ 63 - 1 < v then Inl (Errorf ''strconv.Atoi: parsing %q'' [s])
                else Inr v))"

section \<open>Decoding the remote record\<close>

text \<open>\<open>flattenSubnetsFromAvailabilityZones\<close>, lines 663-669.\<close>

definition flattenSubnetsFromAvailabilityZones :: "AvailabilityZone list \<Rightarrow> string list" where
  "flattenSubnetsFromAvailabilityZones availabilityZones =
     map (\<lambda>az. StringValue (SubnetId az)) availabilityZones"

text \<open>
  \<open>flattenSubnetMappingsFromAvailabilityZones\<close>, lines 671-687: one Go map per zone.
  Every address record of the zone overwrites the three address keys.
\<close>

definition flattenSubnetMappingsFromAvailabilityZones ::
    "AvailabilityZone list \<Rightarrow> (string \<rightharpoonup> string) list" where
  "flattenSubnetMappingsFromAvailabilityZones availabilityZones =
     map (\<lambda>availabilityZone.
            fold (\<lambda>loadBalancerAddress m.
                    m(''allocation_id'' \<mapsto> StringValue (AllocationId loadBalancerAddress),
                      ''private_ipv4_address'' \<mapsto> StringValue (PrivateIPv4Address loadBalancerAddress),
                      ''ipv6_address'' \<mapsto> StringValue (IPv6Address loadBalancerAddress)))
              (LoadBalancerAddresses availabilityZone)
              (Map.empty(''subnet_id'' \<mapsto> StringValue (SubnetId availabilityZone),
                         ''outpost_id'' \<mapsto> StringValue (OutpostId availabilityZone))))
       availabilityZones"

text \<open>
  \<open>d.Set("subnet_mapping", l)\<close> stores each Go map as a block of the schema: a key the
  map does not have is read back as the zero value of its type, the empty string.
\<close>

definition block_field :: "(string \<rightharpoonup> string) \<Rightarrow> string \<Rightarrow> string" where
  "block_field m k = (case m k of None \<Rightarrow> [] | Some v \<Rightarrow> v)"

definition subnet_mapping_block :: "(string \<rightharpoonup> string) \<Rightarrow> subnet_mapping_elem" where
  "subnet_mapping_block m =
     \<lparr>subnet_id = block_field m ''subnet_id'',
      ipv6_address = block_field m ''ipv6_address'',
      outpost_id = block_field m ''outpost_id'',
      allocation_id = block_field m ''allocation_id'',
      private_ipv4_address = block_field m ''private_ipv4_address''\<rparr>"

text \<open>
  The loop over the attributes of \<open>flattenAwsLbResource\<close>, lines 751-783: the access log
  map and the resource data as they stand when the loop ends, or when it returns the
  error of \<open>Atoi\<close>.
\<close>

fun flattenAttributes :: "LoadBalancerAttribute list \<Rightarrow> access_logs_elem \<Rightarrow> ResourceData \<Rightarrow>
    error option \<times> access_logs_elem \<times> ResourceData" where
  "flattenAttributes [] accessLogMap d = (None, accessLogMap, d)"
| "flattenAttributes (attr # attrs) accessLogMap d =
     (let k = StringValue (Key attr); v = StringValue (Value attr) in
      if k = ''access_logs.s3.enabled'' then
        flattenAttributes attrs (accessLogMap\<lparr>enabled := (v = ''true'')\<rparr>) d
      else if k = ''access_logs.s3.bucket'' then
        flattenAttributes attrs (accessLogMap\<lparr>bucket := v\<rparr>) d
      else if k = ''access_logs.s3.prefix'' then
        flattenAttributes attrs (accessLogMap\<lparr>prefix := v\<rparr>) d
      else if k = ''idle_timeout.timeout_seconds'' then
        (case Atoi v of
           Inl err \<Rightarrow> (Some (Wrap ''Error parsing ALB timeout: %s'' [] err), accessLogMap, d)
         | Inr timeout \<Rightarrow>
             flattenAttributes attrs accessLogMap (Set_fields d (\<lambda>f. f\<lparr>idle_timeout := timeout\<rparr>)))
      else if k = ''routing.http.drop_invalid_header_fields.enabled'' then
        flattenAttributes attrs accessLogMap
          (Set_fields d (\<lambda>f. f\<lparr>drop_invalid_header_fields := (v = ''true'')\<rparr>))
      else if k = ''deletion_protection.enabled'' then
        flattenAttributes attrs accessLogMap
          (Set_fields d (\<lambda>f. f\<lparr>enable_deletion_protection := (v = ''true'')\<rparr>))
      else if k = ''routing.http2.enabled'' then
        flattenAttributes attrs accessLogMap (Set_fields d (\<lambda>f. f\<lparr>enable_http2 := (v = ''true'')\<rparr>))
      else if k = ''load_balancing.cross_zone.enabled'' then
        flattenAttributes attrs accessLogMap
          (Set_fields d (\<lambda>f. f\<lparr>enable_cross_zone_load_balancing := (v = ''true'')\<rparr>))
      else flattenAttributes attrs accessLogMap d)"

text \<open>
  The fields \<open>flattenAwsLbResource\<close> sets from the record itself, lines 708-726. The
  values are typed here, so \<open>d.Set\<close> has no value to refuse and its error branches are
  never taken.
\<close>

definition flattenLoadBalancer :: "ResourceData \<Rightarrow> LoadBalancer \<Rightarrow> ResourceData" where
  "flattenLoadBalancer d lb =
     Set_fields d (\<lambda>f. f
       \<lparr>arn := StringValue (LoadBalancerArn lb),
        arn_suffix := lbSuffixFromARN (LoadBalancerArn lb),
        name := StringValue (LoadBalancerName lb),
        internal := (Scheme lb \<noteq> None \<and> StringValue (Scheme lb) = ''internal''),
        security_groups := SecurityGroups lb,
        vpc_id := StringValue (VpcId lb),
        zone_id := StringValue (CanonicalHostedZoneId lb),
        dns_name := StringValue (DNSName lb),
        ip_address_type := StringValue (IpAddressType lb),
        load_balancer_type := StringValue (Type lb),
        customer_owned_ipv4_pool := StringValue (CustomerOwnedIpv4Pool lb),
        subnets := flattenSubnetsFromAvailabilityZones (AvailabilityZones lb),
        subnet_mapping :=
          map subnet_mapping_block (flattenSubnetMappingsFromAvailabilityZones (AvailabilityZones lb))\<rparr>)"

text \<open>\<open>flattenAwsLbResource\<close>, lines 704-790.\<close>

definition flattenAwsLbResource :: "meta \<Rightarrow> ResourceData \<Rightarrow> LoadBalancer \<Rightarrow> call list \<Rightarrow>
    error option \<times> ResourceData \<times> call list" where
  "flattenAwsLbResource m d lb tr =
     (let d1 = flattenLoadBalancer d lb in
      case invoke (r_Elbv2ListTags m) (ListTags (rd_Id d1)) tr of
        (Inl err, tr1) \<Rightarrow> (Some (Wrap ''error listing tags for (%s): %s'' [rd_Id d1] err), d1, tr1)
      | (Inr tgs, tr1) \<Rightarrow>
          let d2 = Set_fields d1 (\<lambda>f. f\<lparr>tags := IgnoreConfig m (IgnoreAws m tgs)\<rparr>) in
          (case invoke (r_DescribeLoadBalancerAttributes m) (DescribeLoadBalancerAttributes (rd_Id d2)) tr1 of
             (Inl err, tr2) \<Rightarrow> (Some (Wrap ''Error retrieving LB Attributes: %s'' [] err), d2, tr2)
           | (Inr attributes, tr2) \<Rightarrow>
               (case flattenAttributes attributes \<lparr>bucket = [], enabled = False, prefix = []\<rparr> d2 of
                  (Some err, accessLogMap, d3) \<Rightarrow> (Some err, d3, tr2)
                | (None, accessLogMap, d3) \<Rightarrow>
                    (None, Set_fields d3 (\<lambda>f. f\<lparr>access_logs := [Some accessLogMap]\<rparr>), tr2))))"

section \<open>Read\<close>

text \<open>\<open>resourceAwsLbRead\<close>, lines 345-369.\<close>

definition resourceAwsLbRead :: "meta \<Rightarrow> ResourceData \<Rightarrow> call list \<Rightarrow>
    error option \<times> ResourceData \<times> call list" where
  "resourceAwsLbRead m d tr =
     (case invoke (r_DescribeLoadBalancers m) (DescribeLoadBalancers [rd_Id d]) tr of
        (Inl err, tr1) \<Rightarrow>
          if isLoadBalancerNotFound err then (None, d\<lparr>rd_Id := []\<rparr>, tr1)
          else (Some (Wrap ''Error retrieving ALB: %s'' [] err), d, tr1)
      | (Inr lbs, tr1) \<Rightarrow>
          (case lbs of
             [lb] \<Rightarrow> flattenAwsLbResource m d lb tr1
           | _ \<Rightarrow> (Some (Errorf ''Unable to find ALB: %#v'' []), d, tr1)))"

section \<open>Update\<close>

definition attribute :: "string \<Rightarrow> string \<Rightarrow> LoadBalancerAttribute" where
  "attribute k v = \<lparr>Key = Some k, Value = Some v\<rparr>"

text \<open>The access log attributes, lines 384-414.\<close>

definition accessLogsAttributes :: "ResourceData \<Rightarrow> LoadBalancerAttribute list" where
  "accessLogsAttributes d =
     (if HasChange d ''access_logs'' then
        (case access_logs (rd_cur d) of
           [Some log] \<Rightarrow>
             attribute ''access_logs.s3.enabled'' (FormatBool (enabled log)) #
               (if enabled log then
                  [attribute ''access_logs.s3.bucket'' (bucket log),
                   attribute ''access_logs.s3.prefix'' (prefix log)]
                else [])
         | _ \<Rightarrow> [attribute ''access_logs.s3.enabled'' ''false''])
      else [])"

text \<open>The attributes of the type, lines 416-445.\<close>

definition typeAttributes :: "ResourceData \<Rightarrow> LoadBalancerAttribute list" where
  "typeAttributes d =
     (let t = load_balancer_type (rd_cur d) in
      if t = LoadBalancerTypeEnumApplication then
        (if HasChange d ''idle_timeout'' \<or> rd_IsNewResource d then
           [attribute ''idle_timeout.timeout_seconds'' (Sprintf_d (idle_timeout (rd_cur d)))]
         else []) @
        (if HasChange d ''enable_http2'' \<or> rd_IsNewResource d then
           [attribute ''routing.http2.enabled'' (FormatBool (enable_http2 (rd_cur d)))]
         else []) @
        (if HasChange d ''drop_invalid_header_fields'' \<or> rd_IsNewResource d then
           [attribute ''routing.http.drop_invalid_header_fields.enabled''
              (FormatBool (drop_invalid_header_fields (rd_cur d)))]
         else [])
      else if t = LoadBalancerTypeEnumGateway \<or> t = LoadBalancerTypeEnumNetwork then
        (if HasChange d ''enable_cross_zone_load_balancing'' \<or> rd_IsNewResource d then
           [attribute ''load_balancing.cross_zone.enabled''
              (FormatBool (enable_cross_zone_load_balancing (rd_cur d)))]
         else [])
      else [])"

text \<open>Deletion protection, lines 447-452.\<close>

definition deletionProtectionAttributes :: "ResourceData \<Rightarrow> LoadBalancerAttribute list" where
  "deletionProtectionAttributes d =
     (if HasChange d ''enable_deletion_protection'' \<or> rd_IsNewResource d then
        [attribute ''deletion_protection.enabled'' (FormatBool (enable_deletion_protection (rd_cur d)))]
      else [])"

text \<open>The list \<open>attributes\<close> as it stands at line 454.\<close>

definition updateAttributes :: "ResourceData \<Rightarrow> LoadBalancerAttribute list" where
  "updateAttributes d = accessLogsAttributes d @ typeAttributes d @ deletionProtectionAttributes d"

text \<open>
  The five steps of \<open>resourceAwsLbUpdate\<close> that change the remote resource: tags (lines
  374-380), attributes (454-465), security groups (467-479), subnets (485-497) and the
  address type (499-510). Each returns the error of the function, if it ends there.
\<close>

definition updateTagsStep :: "meta \<Rightarrow> ResourceData \<Rightarrow> call list \<Rightarrow> error option \<times> call list" where
  "updateTagsStep m d tr =
     (if HasChange d ''tags'' then
        (case invoke (r_Elbv2UpdateTags m)
                (UpdateTags (rd_Id d) (tags (rd_state d)) (tags (rd_plan d))) tr of
           (Some err, tr') \<Rightarrow> (Some (Wrap ''error updating ALB (%s) tags: %s'' [rd_Id d] err), tr')
         | (None, tr') \<Rightarrow> (None, tr'))
      else (None, tr))"

definition updateAttributesStep :: "meta \<Rightarrow> ResourceData \<Rightarrow> call list \<Rightarrow> error option \<times> call list" where
  "updateAttributesStep m d tr =
     (let attributes = updateAttributes d in
      if length attributes \<noteq> 0 then
        (case invoke (r_ModifyLoadBalancerAttributes m)
                (ModifyLoadBalancerAttributes (rd_Id d) attributes) tr of
           (Some err, tr') \<Rightarrow> (Some (Wrap ''Failure configuring LB attributes: %s'' [] err), tr')
         | (None, tr') \<Rightarrow> (None, tr'))
      else (None, tr))"

definition updateSecurityGroupsStep :: "meta \<Rightarrow> ResourceData \<Rightarrow> call list \<Rightarrow> error option \<times> call list" where
  "updateSecurityGroupsStep m d tr =
     (if HasChange d ''security_groups'' then
        (case invoke (r_SetSecurityGroups m)
                (SetSecurityGroups (rd_Id d) (security_groups (rd_cur d))) tr of
           (Some err, tr') \<Rightarrow> (Some (Wrap ''Failure Setting LB Security Groups: %s'' [] err), tr')
         | (None, tr') \<Rightarrow> (None, tr'))
      else (None, tr))"

definition updateSubnetsStep :: "meta \<Rightarrow> ResourceData \<Rightarrow> call list \<Rightarrow> error option \<times> call list" where
  "updateSubnetsStep m d tr =
     (if HasChange d ''subnets'' \<and> \<not> rd_IsNewResource d then
        (case invoke (r_SetSubnets m) (SetSubnets (rd_Id d) (subnets (rd_cur d))) tr of
           (Some err, tr') \<Rightarrow> (Some (Wrap ''Failure Setting LB Subnets: %s'' [] err), tr')
         | (None, tr') \<Rightarrow> (None, tr'))
      else (None, tr))"

definition updateIpAddressTypeStep :: "meta \<Rightarrow> ResourceData \<Rightarrow> call list \<Rightarrow> error option \<times> call list" where
  "updateIpAddressTypeStep m d tr =
     (if HasChange d ''ip_address_type'' then
        (case invoke (r_SetIpAddressType m)
                (SetIpAddressType (rd_Id d) (ip_address_type (rd_cur d))) tr of
           (Some err, tr') \<Rightarrow> (Some (Wrap ''Failure Setting LB IP Address Type: %s'' [] err), tr')
         | (None, tr') \<Rightarrow> (None, tr'))
      else (None, tr))"

text \<open>The steps in the order of the source; the first error ends the function.\<close>

definition updateSteps :: "meta \<Rightarrow> ResourceData \<Rightarrow> call list \<Rightarrow> error option \<times> call list" where
  "updateSteps m d tr =
     (case updateTagsStep m d tr of
        (Some err, tr1) \<Rightarrow> (Some err, tr1)
      | (None, tr1) \<Rightarrow>
     (case updateAttributesStep m d tr1 of
        (Some err, tr2) \<Rightarrow> (Some err, tr2)
      | (None, tr2) \<Rightarrow>
     (case updateSecurityGroupsStep m d tr2 of
        (Some err, tr3) \<Rightarrow> (Some err, tr3)
      | (None, tr3) \<Rightarrow>
     (case updateSubnetsStep m d tr3 of
        (Some err, tr4) \<Rightarrow> (Some err, tr4)
      | (None, tr4) \<Rightarrow> updateIpAddressTypeStep m d tr4))))"

text \<open>\<open>resourceAwsLbUpdate\<close>, lines 371-518.\<close>

definition resourceAwsLbUpdate :: "meta \<Rightarrow> ResourceData \<Rightarrow> call list \<Rightarrow>
    error option \<times> ResourceData \<times> call list" where
  "resourceAwsLbUpdate m d tr =
     (case updateSteps m d tr of
        (Some err, tr1) \<Rightarrow> (Some err, d, tr1)
      | (None, tr1) \<Rightarrow>
          (case LoadBalancerActive m (rd_Id d) (rd_TimeoutUpdate d) tr1 of
             (Some err, tr2) \<Rightarrow>
               (Some (Wrap ''error waiting for Load Balancer (%s) to be active: %w''
                        [name (rd_cur d)] err), d, tr2)
           | (None, tr2) \<Rightarrow> resourceAwsLbRead m d tr2))"

section \<open>Create\<close>

text \<open>One subnet mapping of the request, lines 294-310.\<close>

definition expandSubnetMapping :: "subnet_mapping_elem \<Rightarrow> SubnetMapping" where
  "expandSubnetMapping subnetMap =
     \<lparr>SubnetMapping_SubnetId = Some (subnet_id subnetMap),
      SubnetMapping_AllocationId =
        (if allocation_id subnetMap \<noteq> [] then Some (allocation_id subnetMap) else None),
      SubnetMapping_PrivateIPv4Address =
        (if private_ipv4_address subnetMap \<noteq> [] then Some (private_ipv4_address subnetMap) else None),
      SubnetMapping_IPv6Address =
        (if ipv6_address subnetMap \<noteq> [] then Some (ipv6_address subnetMap) else None)\<rparr>"

text \<open>
  The name of the new load balancer, lines 259-266. \<open>d.GetOk\<close> is true for a value that
  is not the zero value of its type.
\<close>

definition createName :: "meta \<Rightarrow> ResourceData \<Rightarrow> string" where
  "createName m d =
     (if name (rd_cur d) \<noteq> [] then name (rd_cur d)
      else if name_prefix (rd_cur d) \<noteq> [] then PrefixedUniqueId m (name_prefix (rd_cur d))
      else PrefixedUniqueId m ''tf-lb-'')"

text \<open>The request \<open>elbOpts\<close> as it stands at line 322.\<close>

definition createLoadBalancerInput :: "meta \<Rightarrow> ResourceData \<Rightarrow> CreateLoadBalancerInput" where
  "createLoadBalancerInput m d =
     (let f = rd_cur d; tgs = IgnoreAws m (tags f) in
      \<lparr>Input_Name = Some (createName m d),
       Input_Type = Some (load_balancer_type f),
       Input_Tags = (if length tgs > 0 then Some tgs else None),
       Input_Scheme = (if internal f then Some ''internal'' else None),
       Input_SecurityGroups = (if security_groups f \<noteq> [] then Some (security_groups f) else None),
       Input_Subnets = (if subnets f \<noteq> [] then Some (subnets f) else None),
       Input_SubnetMappings =
         (if subnet_mapping f \<noteq> [] then Some (map expandSubnetMapping (subnet_mapping f)) else None),
       Input_IpAddressType = (if ip_address_type f \<noteq> [] then Some (ip_address_type f) else None),
       Input_CustomerOwnedIpv4Pool =
         (if customer_owned_ipv4_pool f \<noteq> [] then Some (customer_owned_ipv4_pool f) else None)\<rparr>)"

text \<open>\<open>resourceAwsLbCreate\<close>, lines 255-343.\<close>

definition resourceAwsLbCreate :: "meta \<Rightarrow> ResourceData \<Rightarrow> call list \<Rightarrow>
    error option \<times> ResourceData \<times> call list" where
  "resourceAwsLbCreate m d tr =
     (let elbOpts = createLoadBalancerInput m d;
          d1 = Set_fields d (\<lambda>f. f\<lparr>name := createName m d\<rparr>)
      in case invoke (r_CreateLoadBalancer m) (CreateLoadBalancer elbOpts) tr of
           (Inl err, tr1) \<Rightarrow>
             (Some (Wrap ''error creating %s Load Balancer: %w'' [load_balancer_type (rd_cur d1)] err),
              d1, tr1)
         | (Inr lbs, tr1) \<Rightarrow>
             (case lbs of
                [lb] \<Rightarrow>
                  let d2 = d1\<lparr>rd_Id := StringValue (LoadBalancerArn lb)\<rparr> in
                  (case LoadBalancerActive m (StringValue (LoadBalancerArn lb)) (rd_TimeoutCreate d2) tr1 of
                     (Some err, tr2) \<Rightarrow>
                       (Some (Wrap ''error waiting for Load Balancer (%s) to be active: %w''
                                [name (rd_cur d2)] err), d2, tr2)
                   | (None, tr2) \<Rightarrow> resourceAwsLbUpdate m d2 tr2)
              | _ \<Rightarrow>
                  (Some (Errorf ''no load balancers returned following creation of %s''
                           [name (rd_cur d1)]), d1, tr1)))"

section \<open>Delete\<close>

text \<open>\<open>cleanupLBNetworkInterfaces\<close>, lines 552-590.\<close>

definition cleanupLBNetworkInterfaces :: "meta \<Rightarrow> string \<Rightarrow> call list \<Rightarrow> error option \<times> call list" where
  "cleanupLBNetworkInterfaces m lbArn tr =
     (case getLbNameFromArn lbArn of
        Inl err \<Rightarrow> (Some err, tr)
      | Inr nm \<Rightarrow>
          (case invoke (r_DescribeNetworkInterfaces m)
                  (DescribeNetworkInterfaces
                     [(''attachment.instance-owner-id'', [''amazon-elb'']),
                      (''description'', [''ELB '' @ nm])]) tr of
             (Inl err, tr1) \<Rightarrow> (Some err, tr1)
           | (Inr networkInterfaces, tr1) \<Rightarrow>
               if length networkInterfaces = 0 then (None, tr1)
               else
                 (case invoke (r_detachNetworkInterfaces m) (DetachNetworkInterfaces networkInterfaces) tr1 of
                    (Some err, tr2) \<Rightarrow> (Some err, tr2)
                  | (None, tr2) \<Rightarrow>
                      invoke (r_deleteNetworkInterfaces m) (DeleteNetworkInterfaces networkInterfaces) tr2)))"

text \<open>The function that \<open>waitForNLBNetworkInterfacesToDetach\<close> retries, lines 618-633.\<close>

definition describeAttachedInterfaces :: "meta \<Rightarrow> string \<Rightarrow> Filter list \<Rightarrow> call list \<Rightarrow>
    RetryError option \<times> call list" where
  "describeAttachedInterfaces m lbArn input tr =
     (case invoke (r_DescribeNetworkInterfaces m) (DescribeNetworkInterfaces input) tr of
        (Inl err, tr') \<Rightarrow> (Some (NonRetryableError err), tr')
      | (Inr networkInterfaces, tr') \<Rightarrow>
          let niCount = length networkInterfaces in
          if niCount > 0 then
            (Some (RetryableError (Errorf ''Waiting for %d ENIs of %q to clean up''
                                     [Sprintf_d (int niCount), lbArn])), tr')
          else (None, tr'))"

text \<open>\<open>waitForNLBNetworkInterfacesToDetach\<close>, lines 592-648.\<close>

definition waitForNLBNetworkInterfacesToDetach :: "meta \<Rightarrow> string \<Rightarrow> call list \<Rightarrow>
    error option \<times> call list" where
  "waitForNLBNetworkInterfacesToDetach m lbArn tr =
     (case getLbNameFromArn lbArn of
        Inl err \<Rightarrow> (Some err, tr)
      | Inr nm \<Rightarrow>
          let input = [(''attachment.instance-owner-id'', [''amazon-aws'']),
                       (''attachment.attachment-id'', [''ela-attach-*'']),
                       (''description'', [''ELB '' @ nm])]
          in
          (case Retry m (RetryAttempts m) None (describeAttachedInterfaces m lbArn input) tr of
             (err, tr1) \<Rightarrow>
               if isResourceTimeoutError err then
                 (case invoke (r_DescribeNetworkInterfaces m) (DescribeNetworkInterfaces input) tr1 of
                    (Inl err', tr2) \<Rightarrow>
                      (Some (Wrap ''Error describing network inferfaces: %s'' [] err'), tr2)
                  | (Inr networkInterfaces, tr2) \<Rightarrow>
                      let niCount = length networkInterfaces in
                      if niCount > 0 then
                        (Some (Errorf ''Error waiting for %d ENIs of %q to clean up''
                                 [Sprintf_d (int niCount), lbArn]), tr2)
                      else (None, tr2))
               else
                 (case err of
                    Some err' \<Rightarrow> (Some (Wrap ''Error describing network inferfaces: %s'' [] err'), tr1)
                  | None \<Rightarrow> (None, tr1))))"

text \<open>
  \<open>resourceAwsLbDelete\<close>, lines 520-546. The result is the error of the function, the
  calls, and the warnings written to the log.
\<close>

datatype warning = Warn string error

definition resourceAwsLbDelete :: "meta \<Rightarrow> ResourceData \<Rightarrow> call list \<Rightarrow>
    error option \<times> call list \<times> warning list" where
  "resourceAwsLbDelete m d tr =
     (case invoke (r_DeleteLoadBalancer m) (DeleteLoadBalancer (rd_Id d)) tr of
        (Some err, tr1) \<Rightarrow> (Some (Wrap ''Error deleting LB: %s'' [] err), tr1, [])
      | (None, tr1) \<Rightarrow>
          (case cleanupLBNetworkInterfaces m (rd_Id d) tr1 of
             (err1, tr2) \<Rightarrow>
               (case waitForNLBNetworkInterfacesToDetach m (rd_Id d) tr2 of
                  (err2, tr3) \<Rightarrow>
                    (None, tr3,
                     (case err1 of
                        Some e \<Rightarrow> [Warn ''[WARN] Failed to cleanup ENIs for ALB %q: %#v'' e]
                      | None \<Rightarrow> []) @
                     (case err2 of
                        Some e \<Rightarrow> [Warn ''[WARN] Failed to wait for ENIs to disappear for NLB %q: %#v'' e]
                      | None \<Rightarrow> [])))))"

section \<open>The calls of an update, as the specification lists them\<close>

text \<open>
  Sections 4.1 and 4.3 of the specification: an update sends the tag update, the
  attribute update, the security groups, the subnets and the address type, in that order,
  each when its field changed; the subnets are not sent for a resource that was just
  created. \<open>spec_update_calls\<close> follows these words, to be compared with the calls of
  \<open>updateSteps\<close>.
\<close>

definition spec_update_calls :: "ResourceData \<Rightarrow> call list" where
  "spec_update_calls d =
     (if HasChange d ''tags'' then [UpdateTags (rd_Id d) (tags (rd_state d)) (tags (rd_plan d))] else []) @
     (if updateAttributes d \<noteq> [] then [ModifyLoadBalancerAttributes (rd_Id d) (updateAttributes d)] else []) @
     (if HasChange d ''security_groups'' then [SetSecurityGroups (rd_Id d) (security_groups (rd_cur d))] else []) @
     (if HasChange d ''subnets'' \<and> \<not> rd_IsNewResource d then [SetSubnets (rd_Id d) (subnets (rd_cur d))] else []) @
     (if HasChange d ''ip_address_type'' then [SetIpAddressType (rd_Id d) (ip_address_type (rd_cur d))] else [])"

text \<open>The calls that change the remote load balancer.\<close>

fun isUpdateCall :: "call \<Rightarrow> bool" where
  "isUpdateCall (UpdateTags i s t) = True"
| "isUpdateCall (ModifyLoadBalancerAttributes i as) = True"
| "isUpdateCall (SetSecurityGroups i gs) = True"
| "isUpdateCall (SetSubnets i ss) = True"
| "isUpdateCall (SetIpAddressType i t) = True"
| "isUpdateCall c = False"

section \<open>Example inputs\<close>

text \<open>
  An existing application load balancer on one subnet whose plan changes nothing, the
  record the remote service holds for it, and a remote service that accepts every call
  and reports the load balancer active.
\<close>

definition example_arn :: string where
  "example_arn = ''arn:partition:service:region:account:loadbalancer/app/my-lb/abcdef0123456789''"

definition example_fields :: lb_fields where
  "example_fields =
     \<lparr>arn = example_arn, arn_suffix = ''app/my-lb/abcdef0123456789'', name = ''my-lb'',
      name_prefix = [], internal = False, load_balancer_type = ''application'',
      security_groups = [''sg-1''], subnets = [''subnet-1''], subnet_mapping = [],
      access_logs = [Some \<lparr>bucket = [], enabled = False, prefix = []\<rparr>],
      enable_deletion_protection = False, idle_timeout = 60,
      drop_invalid_header_fields = False, enable_cross_zone_load_balancing = False,
      enable_http2 = True, ip_address_type = ''ipv4'', customer_owned_ipv4_pool = [],
      vpc_id = ''vpc-1'', zone_id = ''Z1'', dns_name = ''my-lb.example'', tags = []\<rparr>"

definition example_data :: ResourceData where
  "example_data =
     \<lparr>rd_Id = example_arn, rd_IsNewResource = False, rd_state = example_fields,
      rd_plan = example_fields, rd_cur = example_fields, rd_TimeoutCreate = Suc (Suc 0),
      rd_TimeoutUpdate = Suc (Suc 0)\<rparr>"

definition example_zone :: AvailabilityZone where
  "example_zone = \<lparr>SubnetId = Some ''subnet-1'', OutpostId = None, LoadBalancerAddresses = []\<rparr>"

definition example_zone_with_address :: AvailabilityZone where
  "example_zone_with_address =
     \<lparr>SubnetId = Some ''subnet-2'', OutpostId = Some ''op-2'',
      LoadBalancerAddresses =
        [\<lparr>AllocationId = Some ''eipalloc-2'', PrivateIPv4Address = None, IPv6Address = None\<rparr>]\<rparr>"

definition example_lb :: LoadBalancer where
  "example_lb =
     \<lparr>LoadBalancerArn = Some example_arn, LoadBalancerName = Some ''my-lb'',
      Scheme = Some ''internet-facing'', SecurityGroups = [''sg-1''], VpcId = Some ''vpc-1'',
      CanonicalHostedZoneId = Some ''Z1'', DNSName = Some ''my-lb.example'',
      IpAddressType = Some ''ipv4'', Type = Some ''application'', CustomerOwnedIpv4Pool = None,
      AvailabilityZones = [example_zone]\<rparr>"

definition example_meta :: meta where
  "example_meta =
     \<lparr>r_CreateLoadBalancer = (\<lambda>tr. Inr [example_lb]),
      r_DescribeLoadBalancers = (\<lambda>tr. Inr [example_lb]),
      r_LoadBalancerState = (\<lambda>tr. Inr ''active''),
      r_Elbv2UpdateTags = (\<lambda>tr. None),
      r_Elbv2ListTags = (\<lambda>tr. Inr []),
      r_ModifyLoadBalancerAttributes = (\<lambda>tr. None),
      r_DescribeLoadBalancerAttributes = (\<lambda>tr. Inr []),
      r_SetSecurityGroups = (\<lambda>tr. None),
      r_SetSubnets = (\<lambda>tr. None),
      r_SetIpAddressType = (\<lambda>tr. None),
      r_DeleteLoadBalancer = (\<lambda>tr. None),
      r_DescribeNetworkInterfaces = (\<lambda>tr. Inr []),
      r_detachNetworkInterfaces = (\<lambda>tr. None),
      r_deleteNetworkInterfaces = (\<lambda>tr. None),
      PrefixedUniqueId = (\<lambda>p. p @ ''20261031000000000000000001''),
      IgnoreAws = (\<lambda>t. t),
      IgnoreConfig = (\<lambda>t. t),
      RetryAttempts = Suc (Suc 0),
      RetryTimeout = (\<lambda>lastErr. TimeoutError)\<rparr>"

section \<open>Formatting and parsing an integer\<close>

lemma digit_cases:
  "(k::nat) < 10 \<Longrightarrow> k = 0 \<or> k = 1 \<or> k = 2 \<or> k = 3 \<or> k = 4 \<or> k = 5 \<or> k = 6 \<or> k = 7 \<or> k = 8 \<or> k = 9"
  by arith

lemma digit_value_digit_char: "digit_value (digit_char n) = Some (n mod 10)"
proof -
  have "n mod 10 < 10" by simp
  from digit_cases [OF this] show ?thesis
    by (auto simp: digit_value_def digit_char_def)
qed

lemma digits_value_append:
  "digits_value (xs @ [c]) acc =
     (case digits_value xs acc of
        None \<Rightarrow> None
      | Some v \<Rightarrow> (case digit_value c of None \<Rightarrow> None | Some dv \<Rightarrow> Some (10 * v + dv)))"
  by (induction xs arbitrary: acc) (auto split: option.splits)

lemma digits_value_decimal: "digits_value (decimal n) 0 = Some n"
proof (induction n rule: decimal.induct)
  case (1 n)
  show ?case
  proof (cases "n < 10")
    case True
    then show ?thesis
      by (subst decimal.simps) (simp add: digit_value_digit_char)
  next
    case False
    with 1 have "digits_value (decimal (n div 10)) 0 = Some (n div 10)" by simp
    with False show ?thesis
      by (subst decimal.simps) (simp add: digits_value_append digit_value_digit_char)
  qed
qed

lemma decimal_not_empty: "decimal n \<noteq> []"
  by (subst decimal.simps) simp

lemma digit_char_not_sign: "digit_char n \<noteq> CHR ''-'' \<and> digit_char n \<noteq> CHR ''+''"
proof -
  have "n mod 10 < 10" by simp
  from digit_cases [OF this] show ?thesis by (auto simp: digit_char_def)
qed

lemma decimal_hd: "\<exists>k r. decimal n = digit_char k # r"
proof (induction n rule: decimal.induct)
  case (1 n)
  show ?case
  proof (cases "n < 10")
    case True
    then have "decimal n = digit_char n # []" by (subst decimal.simps) simp
    then show ?thesis by blast
  next
    case False
    with 1 obtain k r where "decimal (n div 10) = digit_char k # r" by blast
    with False have "decimal n = digit_char k # (r @ [digit_char n])" by (subst decimal.simps) simp
    then show ?thesis by blast
  qed
qed

lemma Atoi_Sprintf_d:
  assumes "- (2 ^ 63) \<le> i" and "i \<le> 2 ^ 63 - 1"
  shows "Atoi (Sprintf_d i) = Inr i"
proof (cases "i < 0")
  case True
  then show ?thesis
    using assms by (simp add: Atoi_def Sprintf_d_def decimal_not_empty digits_value_decimal)
next
  case False
  obtain k r where kr: "decimal (nat i) = digit_char k # r" using decimal_hd by blast
  have "digits_value (digit_char k # r) 0 = Some (nat i)"
    using digits_value_decimal [of "nat i"] kr by simp
  with False kr show ?thesis
    using assms digit_char_not_sign [of k]
    by (simp add: Atoi_def Sprintf_d_def del: digits_value.simps)
qed

section \<open>Properties of the replacement decision\<close>

lemma Difference_empty_iff: "Difference s t = [] \<longleftrightarrow> set s \<subseteq> set t"
  by (auto simp: Difference_def filter_empty_conv)

lemma Differences_empty_iff:
  "(length (Difference s t) > 0 \<or> length (Difference t s) > 0) \<longleftrightarrow> set s \<noteq> set t"
  using Difference_empty_iff [of s t] Difference_empty_iff [of t s] by auto

text \<open>
  Claim C1, as the code has it. When the SDK calls succeed, \<open>customizeDiffNLBSubnets\<close>
  returns a diff, and in it \<open>subnets\<close> is marked ForceNew exactly when the type is
  \<open>network\<close>, the resource exists (its id is not empty) and the old and the new subnet
  sets differ. For every other type (\<open>application\<close>, and \<open>gateway\<close> too) and for a new
  resource nothing is marked.
\<close>

theorem customizeDiffNLBSubnets_forces_iff:
  assumes "SetNew_result sdk = None" and "ForceNew_result sdk = None"
    and "''subnets'' \<notin> set (diff_forceNew d)"
  shows "\<exists>d'. customizeDiffNLBSubnets sdk d = Inr d' \<and>
           (''subnets'' \<in> set (diff_forceNew d') \<longleftrightarrow>
              diff_load_balancer_type d = ''network'' \<and> diff_Id d \<noteq> '''' \<and>
              set (orEmptySet (diff_subnets_old d)) \<noteq> set (orEmptySet (diff_subnets_new d)))"
proof -
  let ?os = "orEmptySet (diff_subnets_old d)" and ?ns = "orEmptySet (diff_subnets_new d)"
  have ch: "(length (Difference ?os ?ns) > 0 \<or> length (Difference ?ns ?os) > 0) \<longleftrightarrow> set ?os \<noteq> set ?ns"
    by (rule Differences_empty_iff)
  show ?thesis
  proof (cases "diff_load_balancer_type d = ''network'' \<and> diff_Id d \<noteq> '''' \<and> set ?os \<noteq> set ?ns")
    case True
    with ch assms show ?thesis
      by (simp add: customizeDiffNLBSubnets_def LoadBalancerTypeEnumNetwork_def Let_def)
  next
    case False
    with ch assms show ?thesis
      by (auto simp: customizeDiffNLBSubnets_def LoadBalancerTypeEnumNetwork_def Let_def)
  qed
qed

theorem customizeDiffNLBSubnets_forces_iff_witness:
  "\<exists>d'. customizeDiffNLBSubnets \<lparr>SetNew_result = None, ForceNew_result = None\<rparr>
          \<lparr>diff_load_balancer_type = ''network'', diff_Id = ''arn:lb'',
           diff_subnets_old = Some [''subnet-a''], diff_subnets_new = Some [''subnet-b''],
           diff_forceNew = []\<rparr> = Inr d' \<and> ''subnets'' \<in> set (diff_forceNew d')"
  using customizeDiffNLBSubnets_forces_iff
    [of "\<lparr>SetNew_result = None, ForceNew_result = None\<rparr>"
        "\<lparr>diff_load_balancer_type = ''network'', diff_Id = ''arn:lb'',
          diff_subnets_old = Some [''subnet-a''], diff_subnets_new = Some [''subnet-b''],
          diff_forceNew = []\<rparr>"]
  by (simp add: orEmptySet_def)

text \<open>
  C1 as the specification states it fails for the \<open>gateway\<close> type: an existing gateway
  load balancer whose subnets change comes back unchanged, with nothing marked ForceNew.
\<close>

theorem customizeDiffNLBSubnets_gateway_counterexample:
  "customizeDiffNLBSubnets \<lparr>SetNew_result = None, ForceNew_result = None\<rparr>
     \<lparr>diff_load_balancer_type = ''gateway'', diff_Id = ''arn:lb'',
      diff_subnets_old = Some [''subnet-a''], diff_subnets_new = Some [''subnet-b''],
      diff_forceNew = []\<rparr>
   = Inr \<lparr>diff_load_balancer_type = ''gateway'', diff_Id = ''arn:lb'',
      diff_subnets_old = Some [''subnet-a''], diff_subnets_new = Some [''subnet-b''],
      diff_forceNew = []\<rparr>"
  by (simp add: customizeDiffNLBSubnets_def LoadBalancerTypeEnumNetwork_def)

section \<open>Properties of the decoding\<close>

lemma fold_addresses:
  "fold (\<lambda>a m. m(''allocation_id'' \<mapsto> StringValue (AllocationId a),
                 ''private_ipv4_address'' \<mapsto> StringValue (PrivateIPv4Address a),
                 ''ipv6_address'' \<mapsto> StringValue (IPv6Address a))) as m0 k
   = (if as = [] then m0 k
      else if k = ''ipv6_address'' then Some (StringValue (IPv6Address (last as)))
      else if k = ''private_ipv4_address'' then Some (StringValue (PrivateIPv4Address (last as)))
      else if k = ''allocation_id'' then Some (StringValue (AllocationId (last as)))
      else m0 k)"
proof (induction as rule: rev_induct)
  case Nil
  show ?case by simp
next
  case (snoc a as)
  from snoc.IH show ?case by (auto split: if_splits)
qed

lemma flattenSubnetMappings_blocks:
  "map subnet_mapping_block (flattenSubnetMappingsFromAvailabilityZones azs) =
     map (\<lambda>az. \<lparr>subnet_id = StringValue (SubnetId az),
                 ipv6_address =
                   (if LoadBalancerAddresses az = [] then []
                    else StringValue (IPv6Address (last (LoadBalancerAddresses az)))),
                 outpost_id = StringValue (OutpostId az),
                 allocation_id =
                   (if LoadBalancerAddresses az = [] then []
                    else StringValue (AllocationId (last (LoadBalancerAddresses az)))),
                 private_ipv4_address =
                   (if LoadBalancerAddresses az = [] then []
                    else StringValue (PrivateIPv4Address (last (LoadBalancerAddresses az))))\<rparr>) azs"
  by (simp add: flattenSubnetMappingsFromAvailabilityZones_def fold_addresses
      subnet_mapping_block_def block_field_def)

lemma flattenSubnetMappings_keys:
  "map dom (flattenSubnetMappingsFromAvailabilityZones azs) =
     map (\<lambda>az. if LoadBalancerAddresses az = [] then {''subnet_id'', ''outpost_id''}
                else {''subnet_id'', ''outpost_id'', ''allocation_id'', ''private_ipv4_address'',
                      ''ipv6_address''}) azs"
  by (auto simp: flattenSubnetMappingsFromAvailabilityZones_def fold_addresses split: if_splits)

lemma flattenAttributes_attachments:
  "flattenAttributes as alm d = (e, alm', d') \<Longrightarrow>
     subnets (rd_cur d') = subnets (rd_cur d) \<and> subnet_mapping (rd_cur d') = subnet_mapping (rd_cur d)"
proof (induction as arbitrary: alm d)
  case Nil
  then show ?case by simp
next
  case (Cons a as)
  from Cons.prems show ?case
    by (auto simp: Let_def Set_fields_def split: if_splits sum.splits dest!: Cons.IH)
qed

lemma flattenAwsLbResource_attachments:
  "subnets (rd_cur (fst (snd (flattenAwsLbResource m d lb tr)))) = subnets (rd_cur (flattenLoadBalancer d lb)) \<and>
   subnet_mapping (rd_cur (fst (snd (flattenAwsLbResource m d lb tr)))) = subnet_mapping (rd_cur (flattenLoadBalancer d lb))"
  by (auto simp: flattenAwsLbResource_def Let_def invoke_def Set_fields_def
      split: sum.splits prod.splits option.splits dest!: flattenAttributes_attachments)


lemma flattenAttributes_append:
  "flattenAttributes (xs @ ys) alm d =
     (case flattenAttributes xs alm d of
        (Some e, a, d') \<Rightarrow> (Some e, a, d')
      | (None, a, d') \<Rightarrow> flattenAttributes ys a d')"
  by (induction xs arbitrary: alm d) (auto simp: Let_def split: sum.splits)

lemma FormatBool_true: "(FormatBool b = ''true'') = b"
  by (simp add: FormatBool_def)

lemma flattenAttributes_access_logs:
  "\<exists>a. flattenAttributes (accessLogsAttributes d) alm d0 = (None, a, d0) \<and>
       (\<forall>lg. HasChange d ''access_logs'' \<and> access_logs (rd_cur d) = [Some lg] \<and> enabled lg \<longrightarrow> a = lg)"
  by (auto simp: accessLogsAttributes_def attribute_def StringValue_def FormatBool_def
      split: list.splits option.splits)

lemma flattenAttributes_emitted:
  assumes "- (2 ^ 63) \<le> idle_timeout (rd_cur d)" and "idle_timeout (rd_cur d) \<le> 2 ^ 63 - 1"
  shows "fst (flattenAttributes (typeAttributes d @ deletionProtectionAttributes d) a d0) = None \<and>
     fst (snd (flattenAttributes (typeAttributes d @ deletionProtectionAttributes d) a d0)) = a \<and>
     (load_balancer_type (rd_cur d) = ''application'' \<and>
        (HasChange d ''idle_timeout'' \<or> rd_IsNewResource d) \<longrightarrow>
        idle_timeout (rd_cur (snd (snd (flattenAttributes (typeAttributes d @ deletionProtectionAttributes d) a d0))))
          = idle_timeout (rd_cur d)) \<and>
     (load_balancer_type (rd_cur d) = ''application'' \<and>
        (HasChange d ''enable_http2'' \<or> rd_IsNewResource d) \<longrightarrow>
        enable_http2 (rd_cur (snd (snd (flattenAttributes (typeAttributes d @ deletionProtectionAttributes d) a d0))))
          = enable_http2 (rd_cur d)) \<and>
     (load_balancer_type (rd_cur d) = ''application'' \<and>
        (HasChange d ''drop_invalid_header_fields'' \<or> rd_IsNewResource d) \<longrightarrow>
        drop_invalid_header_fields (rd_cur (snd (snd (flattenAttributes (typeAttributes d @ deletionProtectionAttributes d) a d0))))
          = drop_invalid_header_fields (rd_cur d)) \<and>
     ((load_balancer_type (rd_cur d) = ''network'' \<or> load_balancer_type (rd_cur d) = ''gateway'') \<and>
        (HasChange d ''enable_cross_zone_load_balancing'' \<or> rd_IsNewResource d) \<longrightarrow>
        enable_cross_zone_load_balancing (rd_cur (snd (snd (flattenAttributes (typeAttributes d @ deletionProtectionAttributes d) a d0))))
          = enable_cross_zone_load_balancing (rd_cur d)) \<and>
     (HasChange d ''enable_deletion_protection'' \<or> rd_IsNewResource d \<longrightarrow>
        enable_deletion_protection (rd_cur (snd (snd (flattenAttributes (typeAttributes d @ deletionProtectionAttributes d) a d0))))
          = enable_deletion_protection (rd_cur d))"
  using Atoi_Sprintf_d [OF assms]
  by (simp add: typeAttributes_def deletionProtectionAttributes_def attribute_def StringValue_def
      LoadBalancerTypeEnumApplication_def LoadBalancerTypeEnumNetwork_def LoadBalancerTypeEnumGateway_def
      FormatBool_true Set_fields_def Let_def)


lemma attributes_round_trip:
  "(- (2 ^ 63) \<le> idle_timeout (rd_cur e) \<and> idle_timeout (rd_cur e) \<le> 2 ^ 63 - 1 \<longrightarrow>
      fst (flattenAttributes (updateAttributes e) alm d0) = None \<and>
      (load_balancer_type (rd_cur e) = ''application'' \<and>
         (HasChange e ''idle_timeout'' \<or> rd_IsNewResource e) \<longrightarrow>
         idle_timeout (rd_cur (snd (snd (flattenAttributes (updateAttributes e) alm d0)))) = idle_timeout (rd_cur e)) \<and>
      (load_balancer_type (rd_cur e) = ''application'' \<and>
         (HasChange e ''enable_http2'' \<or> rd_IsNewResource e) \<longrightarrow>
         enable_http2 (rd_cur (snd (snd (flattenAttributes (updateAttributes e) alm d0)))) = enable_http2 (rd_cur e)) \<and>
      (load_balancer_type (rd_cur e) = ''application'' \<and>
         (HasChange e ''drop_invalid_header_fields'' \<or> rd_IsNewResource e) \<longrightarrow>
         drop_invalid_header_fields (rd_cur (snd (snd (flattenAttributes (updateAttributes e) alm d0))))
           = drop_invalid_header_fields (rd_cur e)) \<and>
      ((load_balancer_type (rd_cur e) = ''network'' \<or> load_balancer_type (rd_cur e) = ''gateway'') \<and>
         (HasChange e ''enable_cross_zone_load_balancing'' \<or> rd_IsNewResource e) \<longrightarrow>
         enable_cross_zone_load_balancing (rd_cur (snd (snd (flattenAttributes (updateAttributes e) alm d0))))
           = enable_cross_zone_load_balancing (rd_cur e)) \<and>
      (HasChange e ''enable_deletion_protection'' \<or> rd_IsNewResource e \<longrightarrow>
         enable_deletion_protection (rd_cur (snd (snd (flattenAttributes (updateAttributes e) alm d0))))
           = enable_deletion_protection (rd_cur e)) \<and>
      (HasChange e ''access_logs'' \<and> access_logs (rd_cur e) = [Some lg] \<and> enabled lg \<longrightarrow>
         fst (snd (flattenAttributes (updateAttributes e) alm d0)) = lg))"
proof (intro impI)
  assume range: "- (2 ^ 63) \<le> idle_timeout (rd_cur e) \<and> idle_timeout (rd_cur e) \<le> 2 ^ 63 - 1"
  obtain a where a: "flattenAttributes (accessLogsAttributes e) alm d0 = (None, a, d0)"
    and lg: "HasChange e ''access_logs'' \<and> access_logs (rd_cur e) = [Some lg] \<and> enabled lg \<longrightarrow> a = lg"
    using flattenAttributes_access_logs [of e alm d0] by blast
  have split: "flattenAttributes (updateAttributes e) alm d0 =
      flattenAttributes (typeAttributes e @ deletionProtectionAttributes e) a d0"
    by (simp add: updateAttributes_def flattenAttributes_append a)
  from range have r1: "- (2 ^ 63) \<le> idle_timeout (rd_cur e)" and r2: "idle_timeout (rd_cur e) \<le> 2 ^ 63 - 1"
    by simp_all
  from flattenAttributes_emitted [OF r1 r2, of a d0] lg
  show "fst (flattenAttributes (updateAttributes e) alm d0) = None \<and>
      (load_balancer_type (rd_cur e) = ''application'' \<and>
         (HasChange e ''idle_timeout'' \<or> rd_IsNewResource e) \<longrightarrow>
         idle_timeout (rd_cur (snd (snd (flattenAttributes (updateAttributes e) alm d0)))) = idle_timeout (rd_cur e)) \<and>
      (load_balancer_type (rd_cur e) = ''application'' \<and>
         (HasChange e ''enable_http2'' \<or> rd_IsNewResource e) \<longrightarrow>
         enable_http2 (rd_cur (snd (snd (flattenAttributes (updateAttributes e) alm d0)))) = enable_http2 (rd_cur e)) \<and>
      (load_balancer_type (rd_cur e) = ''application'' \<and>
         (HasChange e ''drop_invalid_header_fields'' \<or> rd_IsNewResource e) \<longrightarrow>
         drop_invalid_header_fields (rd_cur (snd (snd (flattenAttributes (updateAttributes e) alm d0))))
           = drop_invalid_header_fields (rd_cur e)) \<and>
      ((load_balancer_type (rd_cur e) = ''network'' \<or> load_balancer_type (rd_cur e) = ''gateway'') \<and>
         (HasChange e ''enable_cross_zone_load_balancing'' \<or> rd_IsNewResource e) \<longrightarrow>
         enable_cross_zone_load_balancing (rd_cur (snd (snd (flattenAttributes (updateAttributes e) alm d0))))
           = enable_cross_zone_load_balancing (rd_cur e)) \<and>
      (HasChange e ''enable_deletion_protection'' \<or> rd_IsNewResource e \<longrightarrow>
         enable_deletion_protection (rd_cur (snd (snd (flattenAttributes (updateAttributes e) alm d0))))
           = enable_deletion_protection (rd_cur e)) \<and>
      (HasChange e ''access_logs'' \<and> access_logs (rd_cur e) = [Some lg] \<and> enabled lg \<longrightarrow>
         fst (snd (flattenAttributes (updateAttributes e) alm d0)) = lg)"
    unfolding split by blast
qed

text \<open>
  Claim C2, as the code has it. The attribute fields make the round trip: decoding the
  attribute list that an update encodes never fails (the idle timeout is a Go \<open>int\<close>) and
  gives back every field that the update encoded, that is every field that changed or
  belongs to a new resource: the idle timeout, the HTTP/2 flag and the
  drop-invalid-header-fields flag of an \<open>application\<close> load balancer, the cross-zone flag
  of a \<open>network\<close> or \<open>gateway\<close> one, deletion protection of any, and the access log block
  when it changed and is enabled. The attachment field does not. Decoding a remote record
  fills both attachment fields from the list of availability zones of the record,
  whatever else the decoding does and however it ends: \<open>subnets\<close> is the subnet id of
  each zone and \<open>subnet_mapping\<close> has one block for each zone. The block always holds the
  subnet id and the outpost id of the zone. It holds the allocation id, the private IPv4
  address and the IPv6 address of the last address record of the zone when the zone has
  an address record, and the empty string in the three fields when it has none: the Go
  map of the zone then has only the keys \<open>subnet_id\<close> and \<open>outpost_id\<close>.
\<close>

theorem decode_remote_record:
  "subnets (rd_cur (fst (snd (flattenAwsLbResource m d lb tr)))) =
     map (\<lambda>az. StringValue (SubnetId az)) (AvailabilityZones lb) \<and>
   subnet_mapping (rd_cur (fst (snd (flattenAwsLbResource m d lb tr)))) =
     map (\<lambda>az. \<lparr>subnet_id = StringValue (SubnetId az),
                 ipv6_address =
                   (if LoadBalancerAddresses az = [] then []
                    else StringValue (IPv6Address (last (LoadBalancerAddresses az)))),
                 outpost_id = StringValue (OutpostId az),
                 allocation_id =
                   (if LoadBalancerAddresses az = [] then []
                    else StringValue (AllocationId (last (LoadBalancerAddresses az)))),
                 private_ipv4_address =
                   (if LoadBalancerAddresses az = [] then []
                    else StringValue (PrivateIPv4Address (last (LoadBalancerAddresses az))))\<rparr>)
       (AvailabilityZones lb) \<and>
   map dom (flattenSubnetMappingsFromAvailabilityZones (AvailabilityZones lb)) =
     map (\<lambda>az. if LoadBalancerAddresses az = [] then {''subnet_id'', ''outpost_id''}
                else {''subnet_id'', ''outpost_id'', ''allocation_id'', ''private_ipv4_address'',
                      ''ipv6_address''}) (AvailabilityZones lb) \<and>
   (- (2 ^ 63) \<le> idle_timeout (rd_cur e) \<and> idle_timeout (rd_cur e) \<le> 2 ^ 63 - 1 \<longrightarrow>
      fst (flattenAttributes (updateAttributes e) alm d0) = None \<and>
      (load_balancer_type (rd_cur e) = ''application'' \<and>
         (HasChange e ''idle_timeout'' \<or> rd_IsNewResource e) \<longrightarrow>
         idle_timeout (rd_cur (snd (snd (flattenAttributes (updateAttributes e) alm d0)))) = idle_timeout (rd_cur e)) \<and>
      (load_balancer_type (rd_cur e) = ''application'' \<and>
         (HasChange e ''enable_http2'' \<or> rd_IsNewResource e) \<longrightarrow>
         enable_http2 (rd_cur (snd (snd (flattenAttributes (updateAttributes e) alm d0)))) = enable_http2 (rd_cur e)) \<and>
      (load_balancer_type (rd_cur e) = ''application'' \<and>
         (HasChange e ''drop_invalid_header_fields'' \<or> rd_IsNewResource e) \<longrightarrow>
         drop_invalid_header_fields (rd_cur (snd (snd (flattenAttributes (updateAttributes e) alm d0))))
           = drop_invalid_header_fields (rd_cur e)) \<and>
      ((load_balancer_type (rd_cur e) = ''network'' \<or> load_balancer_type (rd_cur e) = ''gateway'') \<and>
         (HasChange e ''enable_cross_zone_load_balancing'' \<or> rd_IsNewResource e) \<longrightarrow>
         enable_cross_zone_load_balancing (rd_cur (snd (snd (flattenAttributes (updateAttributes e) alm d0))))
           = enable_cross_zone_load_balancing (rd_cur e)) \<and>
      (HasChange e ''enable_deletion_protection'' \<or> rd_IsNewResource e \<longrightarrow>
         enable_deletion_protection (rd_cur (snd (snd (flattenAttributes (updateAttributes e) alm d0))))
           = enable_deletion_protection (rd_cur e)) \<and>
      (HasChange e ''access_logs'' \<and> access_logs (rd_cur e) = [Some lg] \<and> enabled lg \<longrightarrow>
         fst (snd (flattenAttributes (updateAttributes e) alm d0)) = lg))"
proof -
  have "subnets (rd_cur (flattenLoadBalancer d lb)) =
      map (\<lambda>az. StringValue (SubnetId az)) (AvailabilityZones lb)"
    by (simp add: flattenLoadBalancer_def Set_fields_def flattenSubnetsFromAvailabilityZones_def)
  moreover have "subnet_mapping (rd_cur (flattenLoadBalancer d lb)) =
      map subnet_mapping_block (flattenSubnetMappingsFromAvailabilityZones (AvailabilityZones lb))"
    by (simp add: flattenLoadBalancer_def Set_fields_def)
  ultimately show ?thesis
    using flattenAwsLbResource_attachments [of m d lb tr]
      flattenSubnetMappings_blocks [of "AvailabilityZones lb"]
      flattenSubnetMappings_keys [of "AvailabilityZones lb"]
      attributes_round_trip [of e alm d0 lg]
    by simp
qed

theorem decode_remote_record_witness:
  "subnets (rd_cur (fst (snd (flattenAwsLbResource example_meta example_data
      (example_lb\<lparr>AvailabilityZones := [example_zone, example_zone_with_address]\<rparr>) [])))) =
     [''subnet-1'', ''subnet-2''] \<and>
   subnet_mapping (rd_cur (fst (snd (flattenAwsLbResource example_meta example_data
      (example_lb\<lparr>AvailabilityZones := [example_zone, example_zone_with_address]\<rparr>) [])))) =
     [\<lparr>subnet_id = ''subnet-1'', ipv6_address = [], outpost_id = [], allocation_id = [],
       private_ipv4_address = []\<rparr>,
      \<lparr>subnet_id = ''subnet-2'', ipv6_address = [], outpost_id = ''op-2'',
       allocation_id = ''eipalloc-2'', private_ipv4_address = []\<rparr>] \<and>
   map dom (flattenSubnetMappingsFromAvailabilityZones [example_zone, example_zone_with_address]) =
     [{''subnet_id'', ''outpost_id''},
      {''subnet_id'', ''outpost_id'', ''allocation_id'', ''private_ipv4_address'', ''ipv6_address''}] \<and>
   idle_timeout (rd_cur (snd (snd (flattenAttributes
       (updateAttributes (example_data\<lparr>rd_IsNewResource := True\<rparr>))
       \<lparr>bucket = [], enabled = False, prefix = []\<rparr>
       (example_data\<lparr>rd_cur := example_fields\<lparr>idle_timeout := 0\<rparr>\<rparr>))))) = 60 \<and>
   idle_timeout (rd_cur (snd (snd (flattenAttributes
       (updateAttributes (example_data\<lparr>rd_plan := example_fields\<lparr>idle_timeout := 30\<rparr>,
                                        rd_cur := example_fields\<lparr>idle_timeout := 30\<rparr>\<rparr>))
       \<lparr>bucket = [], enabled = False, prefix = []\<rparr> example_data)))) = 30 \<and>
   fst (snd (flattenAttributes
       (updateAttributes (example_data\<lparr>
          rd_plan := example_fields\<lparr>access_logs := [Some \<lparr>bucket = ''b'', enabled = True, prefix = ''p''\<rparr>]\<rparr>,
          rd_cur := example_fields\<lparr>access_logs := [Some \<lparr>bucket = ''b'', enabled = True, prefix = ''p''\<rparr>]\<rparr>\<rparr>))
       \<lparr>bucket = [], enabled = False, prefix = []\<rparr> example_data))
     = \<lparr>bucket = ''b'', enabled = True, prefix = ''p''\<rparr>"
proof -
  let ?new = "example_data\<lparr>rd_IsNewResource := True\<rparr>"
  let ?chg = "example_data\<lparr>rd_plan := example_fields\<lparr>idle_timeout := 30\<rparr>,
                            rd_cur := example_fields\<lparr>idle_timeout := 30\<rparr>\<rparr>"
  let ?log = "example_data\<lparr>
          rd_plan := example_fields\<lparr>access_logs := [Some \<lparr>bucket = ''b'', enabled = True, prefix = ''p''\<rparr>]\<rparr>,
          rd_cur := example_fields\<lparr>access_logs := [Some \<lparr>bucket = ''b'', enabled = True, prefix = ''p''\<rparr>]\<rparr>\<rparr>"
  let ?lb = "example_lb\<lparr>AvailabilityZones := [example_zone, example_zone_with_address]\<rparr>"
  let ?alm = "\<lparr>bucket = [], enabled = False, prefix = []\<rparr>"
  have new: "rd_IsNewResource ?new \<and> load_balancer_type (rd_cur ?new) = ''application'' \<and>
      idle_timeout (rd_cur ?new) = 60"
    by (simp add: example_data_def example_fields_def)
  have chg: "\<not> rd_IsNewResource ?chg \<and> HasChange ?chg ''idle_timeout'' \<and>
      load_balancer_type (rd_cur ?chg) = ''application'' \<and> idle_timeout (rd_cur ?chg) = 30"
    by (simp add: example_data_def example_fields_def HasChange_def)
  have log: "HasChange ?log ''access_logs'' \<and>
      access_logs (rd_cur ?log) = [Some \<lparr>bucket = ''b'', enabled = True, prefix = ''p''\<rparr>] \<and>
      idle_timeout (rd_cur ?log) = 60"
    by (simp add: example_data_def example_fields_def HasChange_def)
  have zones: "subnets (rd_cur (fst (snd (flattenAwsLbResource example_meta example_data ?lb [])))) =
      [''subnet-1'', ''subnet-2''] \<and>
    subnet_mapping (rd_cur (fst (snd (flattenAwsLbResource example_meta example_data ?lb [])))) =
      [\<lparr>subnet_id = ''subnet-1'', ipv6_address = [], outpost_id = [], allocation_id = [],
        private_ipv4_address = []\<rparr>,
       \<lparr>subnet_id = ''subnet-2'', ipv6_address = [], outpost_id = ''op-2'',
        allocation_id = ''eipalloc-2'', private_ipv4_address = []\<rparr>] \<and>
    map dom (flattenSubnetMappingsFromAvailabilityZones [example_zone, example_zone_with_address]) =
      [{''subnet_id'', ''outpost_id''},
       {''subnet_id'', ''outpost_id'', ''allocation_id'', ''private_ipv4_address'', ''ipv6_address''}] \<and>
    idle_timeout (rd_cur (snd (snd (flattenAttributes (updateAttributes ?new) ?alm
       (example_data\<lparr>rd_cur := example_fields\<lparr>idle_timeout := 0\<rparr>\<rparr>))))) = 60"
    using new decode_remote_record
      [where m = example_meta and d = example_data and tr = "[]" and lb = ?lb
         and e = ?new and alm = ?alm
         and ?d0.0 = "example_data\<lparr>rd_cur := example_fields\<lparr>idle_timeout := 0\<rparr>\<rparr>"]
    by (simp add: example_zone_def example_zone_with_address_def StringValue_def)
  have changed: "idle_timeout (rd_cur (snd (snd (flattenAttributes (updateAttributes ?chg) ?alm
       example_data)))) = 30"
    using chg decode_remote_record
      [where m = example_meta and d = example_data and tr = "[]" and lb = ?lb
         and e = ?chg and alm = ?alm and ?d0.0 = example_data]
    by simp
  have logs: "fst (snd (flattenAttributes (updateAttributes ?log) ?alm example_data))
      = \<lparr>bucket = ''b'', enabled = True, prefix = ''p''\<rparr>"
    using log decode_remote_record
      [where m = example_meta and d = example_data and tr = "[]" and lb = ?lb
         and e = ?log and alm = ?alm and ?d0.0 = example_data
         and lg = "\<lparr>bucket = ''b'', enabled = True, prefix = ''p''\<rparr>"]
    by simp
  from zones changed logs show ?thesis by blast
qed

text \<open>
  C2 as the specification states it fails. The entity \<open>example_data\<close> carries its
  attachment in the subnet id set alone; the record the remote service holds for it
  decodes to an entity whose subnet mapping set is filled as well. No remote record at all
  decodes to an entity with a subnet and no subnet mapping, so no encoding makes the
  round trip the identity on such an entity.
\<close>

theorem decode_round_trip_counterexample:
  "subnets (rd_cur example_data) = [''subnet-1''] \<and> subnet_mapping (rd_cur example_data) = [] \<and>
   fst (resourceAwsLbRead example_meta example_data []) = None \<and>
   subnets (rd_cur (fst (snd (resourceAwsLbRead example_meta example_data [])))) = [''subnet-1''] \<and>
   subnet_mapping (rd_cur (fst (snd (resourceAwsLbRead example_meta example_data [])))) =
     [\<lparr>subnet_id = ''subnet-1'', ipv6_address = [], outpost_id = [], allocation_id = [],
       private_ipv4_address = []\<rparr>] \<and>
   \<not> (\<exists>m d lb tr.
         subnets (rd_cur (fst (snd (flattenAwsLbResource m d lb tr)))) = [''subnet-1''] \<and>
         subnet_mapping (rd_cur (fst (snd (flattenAwsLbResource m d lb tr)))) = [])"
proof -
  have read: "resourceAwsLbRead example_meta example_data [] =
      flattenAwsLbResource example_meta example_data example_lb [DescribeLoadBalancers [example_arn]]"
    by (simp add: resourceAwsLbRead_def invoke_def example_meta_def example_data_def)
  have ok: "fst (flattenAwsLbResource example_meta example_data example_lb
               [DescribeLoadBalancers [example_arn]]) = None"
    by (simp add: flattenAwsLbResource_def invoke_def example_meta_def Let_def)
  have zones: "AvailabilityZones example_lb = [example_zone]"
    by (simp add: example_lb_def)
  have general: "\<not> (\<exists>m d lb tr.
         subnets (rd_cur (fst (snd (flattenAwsLbResource m d lb tr)))) = [''subnet-1''] \<and>
         subnet_mapping (rd_cur (fst (snd (flattenAwsLbResource m d lb tr)))) = [])"
  proof
    assume "\<exists>m d lb tr.
         subnets (rd_cur (fst (snd (flattenAwsLbResource m d lb tr)))) = [''subnet-1''] \<and>
         subnet_mapping (rd_cur (fst (snd (flattenAwsLbResource m d lb tr)))) = []"
    then obtain m d lb tr where
      s: "subnets (rd_cur (fst (snd (flattenAwsLbResource m d lb tr)))) = [''subnet-1'']" and
      e: "subnet_mapping (rd_cur (fst (snd (flattenAwsLbResource m d lb tr)))) = []"
      by blast
    from e have "AvailabilityZones lb = []"
      using flattenAwsLbResource_attachments [of m d lb tr]
      by (simp add: flattenLoadBalancer_def Set_fields_def flattenSubnetMappingsFromAvailabilityZones_def)
    with s show False
      using flattenAwsLbResource_attachments [of m d lb tr]
      by (simp add: flattenLoadBalancer_def Set_fields_def flattenSubnetsFromAvailabilityZones_def)
  qed
  have here: "subnets (rd_cur (flattenLoadBalancer example_data example_lb)) = [''subnet-1''] \<and>
      subnet_mapping (rd_cur (flattenLoadBalancer example_data example_lb)) =
        [\<lparr>subnet_id = ''subnet-1'', ipv6_address = [], outpost_id = [], allocation_id = [],
          private_ipv4_address = []\<rparr>]"
    by (simp add: flattenLoadBalancer_def Set_fields_def flattenSubnetsFromAvailabilityZones_def
        flattenSubnetMappingsFromAvailabilityZones_def zones example_zone_def StringValue_def
        subnet_mapping_block_def block_field_def)
  have mine: "subnets (rd_cur example_data) = [''subnet-1''] \<and> subnet_mapping (rd_cur example_data) = []"
    by (simp add: example_data_def example_fields_def)
  from read ok general here mine
    flattenAwsLbResource_attachments [of example_meta example_data example_lb
      "[DescribeLoadBalancers [example_arn]]"]
  show ?thesis by simp
qed

section \<open>Properties of the identifier patterns\<close>

lemma rmatch_lits:
  "rmatch (lits w @ r) s i g = Some m \<Longrightarrow> \<exists>t. s = w @ t \<and> rmatch r t (i + length w) g = Some m"
proof (induction w arbitrary: s i)
  case Nil
  then show ?case by (simp add: lits_def)
next
  case (Cons c w)
  then obtain x xs where s: "s = x # xs" by (cases s) (auto simp: lits_def)
  with Cons.prems have "x = c" and "rmatch (lits w @ r) xs (Suc i) g = Some m"
    by (auto simp: lits_def split: if_splits)
  with Cons.IH [of xs "Suc i"] s show ?case by auto
qed

lemma rmatch_Star:
  "rmatch (Star c # r) s i g = Some m \<Longrightarrow> \<exists>k\<le>length s. rmatch r (drop k s) (i + k) g = Some m"
proof (induction s arbitrary: i)
  case Nil
  then show ?case by simp
next
  case (Cons x xs)
  show ?case
  proof (cases "cls_match c x \<and> rmatch (Star c # r) xs (Suc i) g \<noteq> None")
    case True
    with Cons.prems have "rmatch (Star c # r) xs (Suc i) g = Some m" by auto
    from Cons.IH [OF this] obtain k where "k \<le> length xs" "rmatch r (drop k xs) (Suc i + k) g = Some m"
      by blast
    then have "Suc k \<le> length (x # xs) \<and> rmatch r (drop (Suc k) (x # xs)) (i + Suc k) g = Some m"
      by simp
    then show ?thesis by blast
  next
    case False
    with Cons.prems have "rmatch r (x # xs) i g = Some m" by (auto split: if_splits option.splits)
    then have "0 \<le> length (x # xs) \<and> rmatch r (drop 0 (x # xs)) (i + 0) g = Some m" by simp
    then show ?thesis by blast
  qed
qed

lemma rmatch_Plus:
  "rmatch (Plus c # r) s i g = Some m \<Longrightarrow> \<exists>k\<le>length s. rmatch r (drop k s) (i + k) g = Some m"
proof (cases s)
  case Nil
  moreover assume "rmatch (Plus c # r) s i g = Some m"
  ultimately show ?thesis by simp
next
  case (Cons x xs)
  moreover assume "rmatch (Plus c # r) s i g = Some m"
  ultimately have "rmatch (Star c # r) xs (Suc i) g = Some m" by (auto split: if_splits)
  from rmatch_Star [OF this] obtain k where "k \<le> length xs" "rmatch r (drop k xs) (Suc i + k) g = Some m"
    by blast
  then have "Suc k \<le> length s \<and> rmatch r (drop (Suc k) s) (i + Suc k) g = Some m"
    using Cons by simp
  then show ?thesis by blast
qed

lemma rmatch_lb_suffix_segment:
  assumes "rmatch re_lb_suffix s i g = Some m"
  shows "\<exists>u v. s = u @ '':loadbalancer/'' @ v"
proof -
  from assms have "rmatch (lits ''arn:'' @ (Star AnyChar # lits '':loadbalancer/'' @ [GroupOpen, Star AnyChar, GroupClose])) s i g = Some m"
    by (simp add: re_lb_suffix_def)
  from rmatch_lits [OF this] obtain t where t: "s = ''arn:'' @ t"
    and "rmatch (Star AnyChar # lits '':loadbalancer/'' @ [GroupOpen, Star AnyChar, GroupClose]) t (i + length ''arn:'') g = Some m"
    by blast
  from rmatch_Star [OF this(2)] obtain k where
    "rmatch (lits '':loadbalancer/'' @ [GroupOpen, Star AnyChar, GroupClose]) (drop k t) (i + length ''arn:'' + k) g = Some m"
    by blast
  from rmatch_lits [OF this] obtain v where "drop k t = '':loadbalancer/'' @ v" by blast
  then have "t = take k t @ '':loadbalancer/'' @ v" by (metis append_take_drop_id)
  with t have "s = (''arn:'' @ take k t) @ '':loadbalancer/'' @ v" by simp
  then show ?thesis by blast
qed

lemma find_from_lb_suffix_segment:
  "find_from re_lb_suffix s i = Some m \<Longrightarrow> \<exists>u v. s = u @ '':loadbalancer/'' @ v"
proof (induction s arbitrary: i)
  case Nil
  then show ?case by (auto split: option.splits dest: rmatch_lb_suffix_segment)
next
  case (Cons x xs)
  show ?case
  proof (cases "rmatch re_lb_suffix (x # xs) i []")
    case None
    with Cons.prems have "find_from re_lb_suffix xs (Suc i) = Some m" by simp
    from Cons.IH [OF this] obtain u v where "xs = u @ '':loadbalancer/'' @ v" by blast
    then have "x # xs = (x # u) @ '':loadbalancer/'' @ v" by simp
    then show ?thesis by blast
  next
    case (Some a)
    then show ?thesis using rmatch_lb_suffix_segment [of "x # xs" i "[]" a] by simp
  qed
qed

lemma lbSuffixFromARN_no_segment:
  assumes "\<not> (\<exists>u v. lbArn = u @ ''loadbalancer/'' @ v)"
  shows "lbSuffixFromARN (Some lbArn) = []"
proof -
  have "find_from re_lb_suffix (drop 0 lbArn) 0 = None"
  proof (cases "find_from re_lb_suffix (drop 0 lbArn) 0")
    case (Some m)
    then obtain u v where "lbArn = u @ '':loadbalancer/'' @ v"
      using find_from_lb_suffix_segment [of lbArn 0 m] by auto
    then have "lbArn = (u @ '':'') @ ''loadbalancer/'' @ v" by simp
    with assms show ?thesis by blast
  qed simp
  then have "allMatches re_lb_suffix lbArn 0 None = []"
    by (subst allMatches.simps) simp
  then show ?thesis by (simp add: lbSuffixFromARN_def FindAllStringSubmatch_def)
qed

lemma count_drop_le: "count_list (drop k s) c \<le> count_list s c"
proof (induction s arbitrary: k)
  case (Cons x xs)
  then show ?case by (cases k) (auto intro: le_SucI)
qed simp

lemma rmatch_lb_name_slashes:
  assumes "rmatch re_lb_name s i g = Some m"
  shows "2 \<le> count_list s CHR ''/''"
proof -
  let ?seg = "Plus (NotLit CHR ''/'')" and ?sl = "One (Lit CHR ''/'')"
  from assms have "rmatch (?seg # ?sl # ?seg # ?sl # [?seg, GroupClose, EndText]) s i (g @ [i]) = Some m"
    by (simp add: re_lb_name_def)
  from rmatch_Plus [OF this] obtain k where
    k: "rmatch (?sl # ?seg # ?sl # [?seg, GroupClose, EndText]) (drop k s) (i + k) (g @ [i]) = Some m"
    by blast
  then obtain t where t: "drop k s = CHR ''/'' # t"
    and "rmatch (?seg # ?sl # [?seg, GroupClose, EndText]) t (Suc (i + k)) (g @ [i]) = Some m"
    by (cases "drop k s") (auto split: if_splits)
  from rmatch_Plus [OF this(2)] obtain j where
    "rmatch (?sl # [?seg, GroupClose, EndText]) (drop j t) (Suc (i + k) + j) (g @ [i]) = Some m"
    by blast
  then obtain t' where t': "drop j t = CHR ''/'' # t'"
    by (cases "drop j t") (auto split: if_splits)
  have "1 \<le> count_list (drop j t) CHR ''/''" using t' by simp
  then have "1 \<le> count_list t CHR ''/''" using count_drop_le [of j t "CHR ''/''"] by linarith
  then have "2 \<le> count_list (drop k s) CHR ''/''" using t by simp
  then show ?thesis using count_drop_le [of k s "CHR ''/''"] by linarith
qed

lemma find_from_lb_name_slashes:
  "find_from re_lb_name s i = Some m \<Longrightarrow> 2 \<le> count_list s CHR ''/''"
proof (induction s arbitrary: i)
  case Nil
  then show ?case by (auto split: option.splits dest: rmatch_lb_name_slashes)
next
  case (Cons x xs)
  show ?case
  proof (cases "rmatch re_lb_name (x # xs) i []")
    case None
    with Cons.prems have "find_from re_lb_name xs (Suc i) = Some m" by simp
    from Cons.IH [OF this] show ?thesis by simp
  next
    case (Some a)
    then show ?thesis using rmatch_lb_name_slashes [of "x # xs" i "[]" a] by simp
  qed
qed

lemma getLbNameFromArn_few_slashes:
  assumes "count_list lbArn CHR ''/'' < 2"
  shows "getLbNameFromArn lbArn = Inl (Errorf ''Unexpected ARN format: %q'' [lbArn])"
proof -
  have "find_from re_lb_name lbArn 0 = None"
  proof (cases "find_from re_lb_name lbArn 0")
    case (Some m)
    from find_from_lb_name_slashes [OF this] assms show ?thesis by simp
  qed simp
  then show ?thesis by (simp add: getLbNameFromArn_def FindStringSubmatch_def)
qed


text \<open>
  Claim C3, as the code has it. Both patterns take the suffix
  \<open>app/my-lb/abcdef0123456789\<close> out of the example identifier. For an identifier with no
  \<open>loadbalancer/\<close> segment \<open>lbSuffixFromARN\<close> does not fail: it returns the empty suffix.
  \<open>getLbNameFromArn\<close> returns the error "Unexpected ARN format" for every identifier
  with fewer than two \<open>/\<close>.
\<close>

theorem identity_suffix_extraction:
  "lbSuffixFromARN (Some ''arn:partition:service:region:account:loadbalancer/app/my-lb/abcdef0123456789'')
     = ''app/my-lb/abcdef0123456789'' \<and>
   getLbNameFromArn ''arn:partition:service:region:account:loadbalancer/app/my-lb/abcdef0123456789''
     = Inr ''app/my-lb/abcdef0123456789'' \<and>
   (\<forall>lbArn. \<not> (\<exists>u v. lbArn = u @ ''loadbalancer/'' @ v) \<longrightarrow> lbSuffixFromARN (Some lbArn) = []) \<and>
   (\<forall>lbArn. count_list lbArn CHR ''/'' < 2 \<longrightarrow>
      getLbNameFromArn lbArn = Inl (Errorf ''Unexpected ARN format: %q'' [lbArn]))"
proof -
  have "lbSuffixFromARN (Some ''arn:partition:service:region:account:loadbalancer/app/my-lb/abcdef0123456789'')
     = ''app/my-lb/abcdef0123456789''"
    by code_simp
  moreover have "getLbNameFromArn ''arn:partition:service:region:account:loadbalancer/app/my-lb/abcdef0123456789''
     = Inr ''app/my-lb/abcdef0123456789''"
    by code_simp
  ultimately show ?thesis
    using lbSuffixFromARN_no_segment getLbNameFromArn_few_slashes by blast
qed

theorem identity_suffix_extraction_witness:
  "lbSuffixFromARN (Some ''my-lb'') = [] \<and>
   getLbNameFromArn ''my-lb'' = Inl (Errorf ''Unexpected ARN format: %q'' [''my-lb''])"
proof -
  have "\<not> (\<exists>u v. ''my-lb'' = u @ ''loadbalancer/'' @ v)"
  proof
    assume "\<exists>u v. ''my-lb'' = u @ ''loadbalancer/'' @ v"
    then obtain u v where "''my-lb'' = u @ ''loadbalancer/'' @ v" by blast
    then have "length ''my-lb'' = length (u @ ''loadbalancer/'' @ v)" by (rule arg_cong)
    then show False by simp
  qed
  moreover have "count_list ''my-lb'' CHR ''/'' < 2" by simp
  ultimately show ?thesis using identity_suffix_extraction by blast
qed

text \<open>
  C3 as the specification states it fails: \<open>a/b/c\<close> has no \<open>loadbalancer/\<close> segment and
  \<open>getLbNameFromArn\<close> accepts it, and \<open>lbSuffixFromARN\<close> returns the empty suffix for
  it, which \<open>flattenLoadBalancer\<close> stores with no error.
\<close>

theorem identity_suffix_counterexample:
  "getLbNameFromArn ''a/b/c'' = Inr ''a/b/c'' \<and>
   lbSuffixFromARN (Some ''a/b/c'') = [] \<and>
   arn_suffix (rd_cur (flattenLoadBalancer example_data (example_lb\<lparr>LoadBalancerArn := Some ''a/b/c''\<rparr>))) = []"
proof -
  have 1: "getLbNameFromArn ''a/b/c'' = Inr ''a/b/c''" by code_simp
  have 2: "lbSuffixFromARN (Some ''a/b/c'') = []" by code_simp
  from 1 2 show ?thesis by (simp add: flattenLoadBalancer_def Set_fields_def)
qed

section \<open>The calls of the operations\<close>

lemma LoadBalancerActive_trace:
  "LoadBalancerActive m a n tr = (e, tr') \<Longrightarrow>
     \<exists>k\<le>n. tr' = tr @ replicate k (RefreshLoadBalancerState a) \<and>
       (e = None \<longrightarrow> 0 < k \<and> r_LoadBalancerState m tr' = Inr ''active'')"
proof (induction n arbitrary: tr)
  case 0
  then have "tr' = tr @ replicate 0 (RefreshLoadBalancerState a) \<and> e \<noteq> None" by auto
  then show ?case by blast
next
  case (Suc n)
  let ?tr1 = "tr @ [RefreshLoadBalancerState a]"
  show ?case
  proof (cases "r_LoadBalancerState m ?tr1")
    case (Inl err)
    with Suc.prems have "tr' = tr @ replicate 1 (RefreshLoadBalancerState a) \<and> e \<noteq> None"
      by (auto simp: invoke_def)
    then show ?thesis by (metis One_nat_def Suc_le_mono le0)
  next
    case (Inr status)
    show ?thesis
    proof (cases "status = ''active''")
      case True
      with Inr Suc.prems have "tr' = tr @ replicate 1 (RefreshLoadBalancerState a) \<and>
          r_LoadBalancerState m tr' = Inr ''active''"
        by (auto simp: invoke_def)
      then have "1 \<le> Suc n \<and> tr' = tr @ replicate 1 (RefreshLoadBalancerState a) \<and>
          (e = None \<longrightarrow> 0 < (1::nat) \<and> r_LoadBalancerState m tr' = Inr ''active'')"
        by auto
      then show ?thesis by blast
    next
      case False
      with Inr Suc.prems have "LoadBalancerActive m a n ?tr1 = (e, tr')"
        by (auto simp: invoke_def)
      from Suc.IH [OF this] obtain k where k: "k \<le> n"
        "tr' = ?tr1 @ replicate k (RefreshLoadBalancerState a)"
        "e = None \<longrightarrow> 0 < k \<and> r_LoadBalancerState m tr' = Inr ''active''"
        by blast
      have "tr' = tr @ replicate (Suc k) (RefreshLoadBalancerState a)"
        using k(2) by (simp add: replicate_app_Cons_same)
      with k show ?thesis by (metis Suc_le_mono zero_less_Suc)
    qed
  qed
qed

lemma flattenAwsLbResource_trace:
  "\<exists>rest. snd (snd (flattenAwsLbResource m d lb tr)) = tr @ rest \<and> (\<forall>c\<in>set rest. \<not> isUpdateCall c)"
  by (auto simp: flattenAwsLbResource_def Let_def invoke_def split: sum.splits prod.splits option.splits)

lemma resourceAwsLbRead_trace:
  "\<exists>rest. snd (snd (resourceAwsLbRead m d tr)) = tr @ DescribeLoadBalancers [rd_Id d] # rest \<and>
     (\<forall>c\<in>set rest. \<not> isUpdateCall c)"
proof (cases "r_DescribeLoadBalancers m (tr @ [DescribeLoadBalancers [rd_Id d]])")
  case (Inl err)
  then show ?thesis by (simp add: resourceAwsLbRead_def invoke_def)
next
  case (Inr lbs)
  show ?thesis
  proof (cases "\<exists>lb. lbs = [lb]")
    case True
    then obtain lb where "lbs = [lb]" by blast
    with Inr flattenAwsLbResource_trace [of m d lb "tr @ [DescribeLoadBalancers [rd_Id d]]"]
    show ?thesis by (auto simp: resourceAwsLbRead_def invoke_def)
  next
    case False
    with Inr show ?thesis
      by (auto simp: resourceAwsLbRead_def invoke_def split: list.splits)
  qed
qed

lemma updateTagsStep_trace:
  "snd (updateTagsStep m d tr) =
     tr @ (if HasChange d ''tags'' then [UpdateTags (rd_Id d) (tags (rd_state d)) (tags (rd_plan d))] else [])"
  by (simp add: updateTagsStep_def invoke_def split: option.splits)

lemma updateAttributesStep_trace:
  "snd (updateAttributesStep m d tr) =
     tr @ (if updateAttributes d \<noteq> [] then [ModifyLoadBalancerAttributes (rd_Id d) (updateAttributes d)] else [])"
  by (simp add: updateAttributesStep_def invoke_def Let_def split: option.splits)

lemma updateSecurityGroupsStep_trace:
  "snd (updateSecurityGroupsStep m d tr) =
     tr @ (if HasChange d ''security_groups'' then [SetSecurityGroups (rd_Id d) (security_groups (rd_cur d))] else [])"
  by (simp add: updateSecurityGroupsStep_def invoke_def split: option.splits)

lemma updateSubnetsStep_trace:
  "snd (updateSubnetsStep m d tr) =
     tr @ (if HasChange d ''subnets'' \<and> \<not> rd_IsNewResource d then [SetSubnets (rd_Id d) (subnets (rd_cur d))] else [])"
  by (simp add: updateSubnetsStep_def invoke_def split: option.splits)

lemma updateIpAddressTypeStep_trace:
  "snd (updateIpAddressTypeStep m d tr) =
     tr @ (if HasChange d ''ip_address_type'' then [SetIpAddressType (rd_Id d) (ip_address_type (rd_cur d))] else [])"
  by (simp add: updateIpAddressTypeStep_def invoke_def split: option.splits)

lemma updateSteps_trace:
  "\<exists>k. snd (updateSteps m d tr) = tr @ take k (spec_update_calls d) \<and>
       (fst (updateSteps m d tr) = None \<longrightarrow> snd (updateSteps m d tr) = tr @ spec_update_calls d)"
proof -
  let ?c1 = "if HasChange d ''tags'' then [UpdateTags (rd_Id d) (tags (rd_state d)) (tags (rd_plan d))] else []"
  let ?c2 = "if updateAttributes d \<noteq> [] then [ModifyLoadBalancerAttributes (rd_Id d) (updateAttributes d)] else []"
  let ?c3 = "if HasChange d ''security_groups'' then [SetSecurityGroups (rd_Id d) (security_groups (rd_cur d))] else []"
  let ?c4 = "if HasChange d ''subnets'' \<and> \<not> rd_IsNewResource d then [SetSubnets (rd_Id d) (subnets (rd_cur d))] else []"
  let ?c5 = "if HasChange d ''ip_address_type'' then [SetIpAddressType (rd_Id d) (ip_address_type (rd_cur d))] else []"
  have all: "spec_update_calls d = ?c1 @ ?c2 @ ?c3 @ ?c4 @ ?c5"
    by (simp add: spec_update_calls_def)
  obtain e1 t1 where s1: "updateTagsStep m d tr = (e1, t1)" by (cases "updateTagsStep m d tr")
  have t1: "t1 = tr @ ?c1" using updateTagsStep_trace [of m d tr] s1 by simp
  show ?thesis
  proof (cases e1)
    case (Some err)
    with s1 have "updateSteps m d tr = (Some err, t1)" by (simp add: updateSteps_def)
    moreover have "tr @ ?c1 = tr @ take (length ?c1) (spec_update_calls d)" by (simp add: all)
    ultimately show ?thesis using t1 by (metis fst_conv option.distinct(1) snd_conv)
  next
    case None
    note n1 = this
    obtain e2 t2 where s2: "updateAttributesStep m d t1 = (e2, t2)" by (cases "updateAttributesStep m d t1")
    have t2: "t2 = tr @ ?c1 @ ?c2" using updateAttributesStep_trace [of m d t1] s2 t1 by simp
    show ?thesis
    proof (cases e2)
      case (Some err)
      with s1 n1 s2 have "updateSteps m d tr = (Some err, t2)" by (simp add: updateSteps_def)
      moreover have "tr @ ?c1 @ ?c2 = tr @ take (length (?c1 @ ?c2)) (spec_update_calls d)"
        unfolding all by (simp only: append_assoc [symmetric] take_append) simp
      ultimately show ?thesis using t2 by (metis fst_conv option.distinct(1) snd_conv)
    next
      case None
      note n2 = this
      obtain e3 t3 where s3: "updateSecurityGroupsStep m d t2 = (e3, t3)"
        by (cases "updateSecurityGroupsStep m d t2")
      have t3: "t3 = tr @ ?c1 @ ?c2 @ ?c3" using updateSecurityGroupsStep_trace [of m d t2] s3 t2 by simp
      show ?thesis
      proof (cases e3)
        case (Some err)
        with s1 n1 s2 n2 s3 have "updateSteps m d tr = (Some err, t3)" by (simp add: updateSteps_def)
        moreover have "tr @ ?c1 @ ?c2 @ ?c3 = tr @ take (length (?c1 @ ?c2 @ ?c3)) (spec_update_calls d)"
          unfolding all by (simp only: append_assoc [symmetric] take_append) simp
        ultimately show ?thesis using t3 by (metis fst_conv option.distinct(1) snd_conv)
      next
        case None
        note n3 = this
        obtain e4 t4 where s4: "updateSubnetsStep m d t3 = (e4, t4)" by (cases "updateSubnetsStep m d t3")
        have t4: "t4 = tr @ ?c1 @ ?c2 @ ?c3 @ ?c4" using updateSubnetsStep_trace [of m d t3] s4 t3 by simp
        show ?thesis
        proof (cases e4)
          case (Some err)
          with s1 n1 s2 n2 s3 n3 s4 have "updateSteps m d tr = (Some err, t4)" by (simp add: updateSteps_def)
          moreover have "tr @ ?c1 @ ?c2 @ ?c3 @ ?c4 = tr @ take (length (?c1 @ ?c2 @ ?c3 @ ?c4)) (spec_update_calls d)"
            unfolding all by (simp only: append_assoc [symmetric] take_append) simp
          ultimately show ?thesis using t4 by (metis fst_conv option.distinct(1) snd_conv)
        next
          case None
          with s1 n1 s2 n2 s3 n3 s4 have "updateSteps m d tr = updateIpAddressTypeStep m d t4"
            by (simp add: updateSteps_def)
          then have "snd (updateSteps m d tr) = tr @ spec_update_calls d"
            using updateIpAddressTypeStep_trace [of m d t4] t4 all by simp
          then have "snd (updateSteps m d tr) = tr @ take (length (spec_update_calls d)) (spec_update_calls d) \<and>
              (fst (updateSteps m d tr) = None \<longrightarrow> snd (updateSteps m d tr) = tr @ spec_update_calls d)"
            by simp
          then show ?thesis by (rule exI [where x = "length (spec_update_calls d)"])
        qed
      qed
    qed
  qed
qed

lemma resourceAwsLbUpdate_trace:
  "\<exists>k n rest. snd (snd (resourceAwsLbUpdate m d tr)) =
       tr @ take k (spec_update_calls d) @ replicate n (RefreshLoadBalancerState (rd_Id d)) @ rest \<and>
     (\<forall>c\<in>set rest. \<not> isUpdateCall c)"
proof -
  obtain e1 t1 where s: "updateSteps m d tr = (e1, t1)" by (cases "updateSteps m d tr")
  from updateSteps_trace [of m d tr] s obtain k where k: "t1 = tr @ take k (spec_update_calls d)"
    by auto
  show ?thesis
  proof (cases e1)
    case (Some err)
    with s k have "snd (snd (resourceAwsLbUpdate m d tr)) =
        tr @ take k (spec_update_calls d) @ replicate 0 (RefreshLoadBalancerState (rd_Id d)) @ [] \<and>
        (\<forall>c\<in>set []. \<not> isUpdateCall c)"
      by (simp add: resourceAwsLbUpdate_def)
    then show ?thesis by blast
  next
    case None
    note n1 = this
    obtain e2 t2 where w: "LoadBalancerActive m (rd_Id d) (rd_TimeoutUpdate d) t1 = (e2, t2)"
      by (cases "LoadBalancerActive m (rd_Id d) (rd_TimeoutUpdate d) t1")
    from LoadBalancerActive_trace [OF w] obtain n where
      n: "t2 = t1 @ replicate n (RefreshLoadBalancerState (rd_Id d))" by blast
    show ?thesis
    proof (cases e2)
      case (Some err)
      with s n1 w k n have "snd (snd (resourceAwsLbUpdate m d tr)) =
          tr @ take k (spec_update_calls d) @ replicate n (RefreshLoadBalancerState (rd_Id d)) @ [] \<and>
          (\<forall>c\<in>set []. \<not> isUpdateCall c)"
        by (simp add: resourceAwsLbUpdate_def)
      then show ?thesis by blast
    next
      case None
      with s n1 w have u: "resourceAwsLbUpdate m d tr = resourceAwsLbRead m d t2"
        by (simp add: resourceAwsLbUpdate_def)
      from resourceAwsLbRead_trace [of m d t2] obtain rest where
        r: "snd (snd (resourceAwsLbRead m d t2)) = t2 @ DescribeLoadBalancers [rd_Id d] # rest"
          "\<forall>c\<in>set rest. \<not> isUpdateCall c" by blast
      from u r k n have "snd (snd (resourceAwsLbUpdate m d tr)) =
          tr @ take k (spec_update_calls d) @ replicate n (RefreshLoadBalancerState (rd_Id d)) @
            (DescribeLoadBalancers [rd_Id d] # rest) \<and>
          (\<forall>c\<in>set (DescribeLoadBalancers [rd_Id d] # rest). \<not> isUpdateCall c)"
        by simp
      then show ?thesis by blast
    qed
  qed
qed


lemma update_calls_of_trace:
  assumes "c \<in> set (drop (length tr) (snd (snd (resourceAwsLbUpdate m d tr))))" and "isUpdateCall c"
  shows "c \<in> set (spec_update_calls d)"
proof -
  from resourceAwsLbUpdate_trace [of m d tr] obtain k n rest where
    t: "snd (snd (resourceAwsLbUpdate m d tr)) =
       tr @ take k (spec_update_calls d) @ replicate n (RefreshLoadBalancerState (rd_Id d)) @ rest"
    and r: "\<forall>c\<in>set rest. \<not> isUpdateCall c" by blast
  from assms(1) t have "c \<in> set (take k (spec_update_calls d)) \<or>
      c \<in> set (replicate n (RefreshLoadBalancerState (rd_Id d))) \<or> c \<in> set rest"
    by auto
  with assms(2) r have "c \<in> set (take k (spec_update_calls d))" by auto
  then show ?thesis by (rule in_set_takeD)
qed

lemma HasChange_unchanged: "rd_state d = rd_plan d \<Longrightarrow> \<not> HasChange d k"
  by (simp add: HasChange_def sameMap_def Let_def)

lemma spec_update_calls_unchanged:
  assumes "rd_state d = rd_plan d" and "\<not> rd_IsNewResource d"
  shows "spec_update_calls d = []"
proof -
  have "updateAttributes d = []"
    using assms
    by (simp add: updateAttributes_def accessLogsAttributes_def typeAttributes_def
        deletionProtectionAttributes_def HasChange_unchanged Let_def)
  then show ?thesis
    using assms by (simp add: spec_update_calls_def HasChange_unchanged)
qed

section \<open>Properties of the update\<close>

text \<open>
  Claim C5, as the code has it. The access log attributes are built only when the
  \<open>access_logs\<close> field changed; when it did not change none is emitted. When it changed
  and the block is absent (or \<open>nil\<close>) or its \<open>enabled\<close> flag is false, the emitted
  access log attributes are exactly \<open>enabled = false\<close>, with no bucket and no prefix; when
  it changed and the block has \<open>enabled\<close> true, bucket \<open>b\<close> and prefix \<open>p\<close>, they are
  exactly \<open>enabled = true\<close>, the bucket \<open>b\<close> and the prefix \<open>p\<close>. No other part of the
  attribute list has an access log key.
\<close>

theorem access_log_attributes:
  "(\<not> HasChange d ''access_logs'' \<longrightarrow> accessLogsAttributes d = []) \<and>
   (HasChange d ''access_logs'' \<and>
      (access_logs (rd_cur d) = [] \<or> access_logs (rd_cur d) = [None] \<or>
       (\<exists>b p. access_logs (rd_cur d) = [Some \<lparr>bucket = b, enabled = False, prefix = p\<rparr>])) \<longrightarrow>
      accessLogsAttributes d = [attribute ''access_logs.s3.enabled'' ''false'']) \<and>
   (HasChange d ''access_logs'' \<and>
      access_logs (rd_cur d) = [Some \<lparr>bucket = b, enabled = True, prefix = p\<rparr>] \<longrightarrow>
      accessLogsAttributes d =
        [attribute ''access_logs.s3.enabled'' ''true'', attribute ''access_logs.s3.bucket'' b,
         attribute ''access_logs.s3.prefix'' p]) \<and>
   filter (\<lambda>a. take 12 (StringValue (Key a)) = ''access_logs.'') (updateAttributes d) = accessLogsAttributes d"
proof -
  have keys: "filter (\<lambda>a. take 12 (StringValue (Key a)) = ''access_logs.'') (accessLogsAttributes d) = accessLogsAttributes d"
    by (auto simp: accessLogsAttributes_def attribute_def StringValue_def split: list.splits option.splits)
  have others: "filter (\<lambda>a. take 12 (StringValue (Key a)) = ''access_logs.'') (typeAttributes d) = [] \<and>
      filter (\<lambda>a. take 12 (StringValue (Key a)) = ''access_logs.'') (deletionProtectionAttributes d) = []"
    by (simp add: typeAttributes_def deletionProtectionAttributes_def attribute_def StringValue_def Let_def)
  have eq: "filter (\<lambda>a. take 12 (StringValue (Key a)) = ''access_logs.'') (updateAttributes d) = accessLogsAttributes d"
    using keys others by (simp add: updateAttributes_def)
  show ?thesis
    using eq by (auto simp: accessLogsAttributes_def FormatBool_def)
qed


theorem access_log_attributes_witness:
  "accessLogsAttributes
     (example_data\<lparr>rd_plan := example_fields\<lparr>access_logs := []\<rparr>,
                   rd_cur := example_fields\<lparr>access_logs := []\<rparr>\<rparr>)
     = [attribute ''access_logs.s3.enabled'' ''false''] \<and>
   accessLogsAttributes
     (example_data\<lparr>rd_plan := example_fields\<lparr>access_logs := [Some \<lparr>bucket = ''b'', enabled = True, prefix = ''p''\<rparr>]\<rparr>,
                   rd_cur := example_fields\<lparr>access_logs := [Some \<lparr>bucket = ''b'', enabled = True, prefix = ''p''\<rparr>]\<rparr>\<rparr>)
     = [attribute ''access_logs.s3.enabled'' ''true'', attribute ''access_logs.s3.bucket'' ''b'',
        attribute ''access_logs.s3.prefix'' ''p'']"
proof -
  let ?off = "example_data\<lparr>rd_plan := example_fields\<lparr>access_logs := []\<rparr>,
                   rd_cur := example_fields\<lparr>access_logs := []\<rparr>\<rparr>"
  let ?on = "example_data\<lparr>rd_plan := example_fields\<lparr>access_logs := [Some \<lparr>bucket = ''b'', enabled = True, prefix = ''p''\<rparr>]\<rparr>,
                   rd_cur := example_fields\<lparr>access_logs := [Some \<lparr>bucket = ''b'', enabled = True, prefix = ''p''\<rparr>]\<rparr>\<rparr>"
  have 1: "HasChange ?off ''access_logs'' \<and> access_logs (rd_cur ?off) = []"
    by (simp add: HasChange_def example_data_def example_fields_def)
  have 2: "HasChange ?on ''access_logs'' \<and>
      access_logs (rd_cur ?on) = [Some \<lparr>bucket = ''b'', enabled = True, prefix = ''p''\<rparr>]"
    by (simp add: HasChange_def example_data_def example_fields_def)
  from 1 2 access_log_attributes [of ?off] access_log_attributes [of ?on "''b''" "''p''"]
  show ?thesis by blast
qed

text \<open>
  C5 as the specification states it fails when the field did not change: the access log
  block of \<open>example_data\<close> has \<open>enabled\<close> false and the update emits no attribute at all;
  and for a new resource with no access log block, before and after, the update emits
  attributes, none of them for the access log.
\<close>

theorem access_log_unchanged_counterexample:
  "access_logs (rd_cur example_data) = [Some \<lparr>bucket = [], enabled = False, prefix = []\<rparr>] \<and>
   accessLogsAttributes example_data = [] \<and> updateAttributes example_data = [] \<and>
   updateAttributes
     (example_data\<lparr>rd_IsNewResource := True, rd_state := example_fields\<lparr>access_logs := []\<rparr>,
        rd_plan := example_fields\<lparr>access_logs := []\<rparr>, rd_cur := example_fields\<lparr>access_logs := []\<rparr>\<rparr>)
     = [attribute ''idle_timeout.timeout_seconds'' ''60'', attribute ''routing.http2.enabled'' ''true'',
        attribute ''routing.http.drop_invalid_header_fields.enabled'' ''false'',
        attribute ''deletion_protection.enabled'' ''false'']"
  by (simp add: example_data_def example_fields_def updateAttributes_def accessLogsAttributes_def
      typeAttributes_def deletionProtectionAttributes_def HasChange_def sameMap_def
      LoadBalancerTypeEnumApplication_def FormatBool_def Sprintf_d_def decimal.simps digit_char_def)

lemma updateAttributes_keys:
  "map (\<lambda>a. StringValue (Key a)) (updateAttributes d) =
     map (\<lambda>a. StringValue (Key a)) (accessLogsAttributes d) @
     (if load_balancer_type (rd_cur d) = ''application'' then
        (if HasChange d ''idle_timeout'' \<or> rd_IsNewResource d then [''idle_timeout.timeout_seconds''] else []) @
        (if HasChange d ''enable_http2'' \<or> rd_IsNewResource d then [''routing.http2.enabled''] else []) @
        (if HasChange d ''drop_invalid_header_fields'' \<or> rd_IsNewResource d
         then [''routing.http.drop_invalid_header_fields.enabled''] else [])
      else if load_balancer_type (rd_cur d) = ''gateway'' \<or> load_balancer_type (rd_cur d) = ''network'' then
        (if HasChange d ''enable_cross_zone_load_balancing'' \<or> rd_IsNewResource d
         then [''load_balancing.cross_zone.enabled''] else [])
      else []) @
     (if HasChange d ''enable_deletion_protection'' \<or> rd_IsNewResource d
      then [''deletion_protection.enabled''] else [])"
  by (simp add: updateAttributes_def typeAttributes_def deletionProtectionAttributes_def
      attribute_def StringValue_def Let_def LoadBalancerTypeEnumApplication_def
      LoadBalancerTypeEnumGateway_def LoadBalancerTypeEnumNetwork_def)

lemma accessLogsAttributes_keys:
  "set (map (\<lambda>a. StringValue (Key a)) (accessLogsAttributes d)) \<subseteq>
     {''access_logs.s3.enabled'', ''access_logs.s3.bucket'', ''access_logs.s3.prefix''}"
  by (auto simp: accessLogsAttributes_def attribute_def StringValue_def split: list.splits option.splits if_splits)

text \<open>
  Claim C6. In the attribute list of an update the idle timeout, the HTTP/2 flag and
  the drop-invalid-header-fields flag are present exactly for an \<open>application\<close> load
  balancer whose field changed or that is new; the cross-zone flag exactly for a
  \<open>network\<close> or \<open>gateway\<close> load balancer whose field changed or that is new; deletion
  protection exactly when its field changed or the resource is new, whatever the type.
  So a new application load balancer always sends its idle timeout, the default
  included, and a key of another type is never in the list. Every attribute call that
  the update sends carries this list.
\<close>

theorem variant_attributes_emitted:
  "(''idle_timeout.timeout_seconds'' \<in> set (map (\<lambda>a. StringValue (Key a)) (updateAttributes d)) \<longleftrightarrow>
      load_balancer_type (rd_cur d) = ''application'' \<and>
      (HasChange d ''idle_timeout'' \<or> rd_IsNewResource d)) \<and>
   (''routing.http2.enabled'' \<in> set (map (\<lambda>a. StringValue (Key a)) (updateAttributes d)) \<longleftrightarrow>
      load_balancer_type (rd_cur d) = ''application'' \<and>
      (HasChange d ''enable_http2'' \<or> rd_IsNewResource d)) \<and>
   (''routing.http.drop_invalid_header_fields.enabled''
        \<in> set (map (\<lambda>a. StringValue (Key a)) (updateAttributes d)) \<longleftrightarrow>
      load_balancer_type (rd_cur d) = ''application'' \<and>
      (HasChange d ''drop_invalid_header_fields'' \<or> rd_IsNewResource d)) \<and>
   (''load_balancing.cross_zone.enabled'' \<in> set (map (\<lambda>a. StringValue (Key a)) (updateAttributes d)) \<longleftrightarrow>
      (load_balancer_type (rd_cur d) = ''network'' \<or> load_balancer_type (rd_cur d) = ''gateway'') \<and>
      (HasChange d ''enable_cross_zone_load_balancing'' \<or> rd_IsNewResource d)) \<and>
   (''deletion_protection.enabled'' \<in> set (map (\<lambda>a. StringValue (Key a)) (updateAttributes d)) \<longleftrightarrow>
      HasChange d ''enable_deletion_protection'' \<or> rd_IsNewResource d) \<and>
   (load_balancer_type (rd_cur d) = ''application'' \<and> rd_IsNewResource d \<longrightarrow>
      attribute ''idle_timeout.timeout_seconds'' (Sprintf_d (idle_timeout (rd_cur d)))
        \<in> set (updateAttributes d)) \<and>
   (\<forall>i as. ModifyLoadBalancerAttributes i as
               \<in> set (drop (length tr) (snd (snd (resourceAwsLbUpdate m d tr)))) \<longrightarrow>
            i = rd_Id d \<and> as = updateAttributes d)"
proof -
  have sent: "\<forall>i as. ModifyLoadBalancerAttributes i as
               \<in> set (drop (length tr) (snd (snd (resourceAwsLbUpdate m d tr)))) \<longrightarrow>
            i = rd_Id d \<and> as = updateAttributes d"
  proof (intro allI impI)
    fix i as
    assume "ModifyLoadBalancerAttributes i as \<in> set (drop (length tr) (snd (snd (resourceAwsLbUpdate m d tr))))"
    then have "ModifyLoadBalancerAttributes i as \<in> set (spec_update_calls d)"
      by (rule update_calls_of_trace) simp
    then show "i = rd_Id d \<and> as = updateAttributes d"
      by (auto simp: spec_update_calls_def split: if_splits)
  qed
  have new: "load_balancer_type (rd_cur d) = ''application'' \<and> rd_IsNewResource d \<longrightarrow>
      attribute ''idle_timeout.timeout_seconds'' (Sprintf_d (idle_timeout (rd_cur d)))
        \<in> set (updateAttributes d)"
    by (simp add: updateAttributes_def typeAttributes_def LoadBalancerTypeEnumApplication_def)
  have al: "\<And>k. k \<in> set (map (\<lambda>a. StringValue (Key a)) (accessLogsAttributes d)) \<Longrightarrow>
      k = ''access_logs.s3.enabled'' \<or> k = ''access_logs.s3.bucket'' \<or> k = ''access_logs.s3.prefix''"
    using accessLogsAttributes_keys [of d] by blast
  have k1: "''idle_timeout.timeout_seconds'' \<in> set (map (\<lambda>a. StringValue (Key a)) (updateAttributes d)) \<longleftrightarrow>
      load_balancer_type (rd_cur d) = ''application'' \<and>
      (HasChange d ''idle_timeout'' \<or> rd_IsNewResource d)"
    using al [of "''idle_timeout.timeout_seconds''"] by (auto simp: updateAttributes_keys)
  have k2: "''routing.http2.enabled'' \<in> set (map (\<lambda>a. StringValue (Key a)) (updateAttributes d)) \<longleftrightarrow>
      load_balancer_type (rd_cur d) = ''application'' \<and>
      (HasChange d ''enable_http2'' \<or> rd_IsNewResource d)"
    using al [of "''routing.http2.enabled''"] by (auto simp: updateAttributes_keys)
  have k3: "''routing.http.drop_invalid_header_fields.enabled''
        \<in> set (map (\<lambda>a. StringValue (Key a)) (updateAttributes d)) \<longleftrightarrow>
      load_balancer_type (rd_cur d) = ''application'' \<and>
      (HasChange d ''drop_invalid_header_fields'' \<or> rd_IsNewResource d)"
    using al [of "''routing.http.drop_invalid_header_fields.enabled''"] by (auto simp: updateAttributes_keys)
  have k4: "''load_balancing.cross_zone.enabled'' \<in> set (map (\<lambda>a. StringValue (Key a)) (updateAttributes d)) \<longleftrightarrow>
      (load_balancer_type (rd_cur d) = ''network'' \<or> load_balancer_type (rd_cur d) = ''gateway'') \<and>
      (HasChange d ''enable_cross_zone_load_balancing'' \<or> rd_IsNewResource d)"
    using al [of "''load_balancing.cross_zone.enabled''"] by (auto simp: updateAttributes_keys)
  have k5: "''deletion_protection.enabled'' \<in> set (map (\<lambda>a. StringValue (Key a)) (updateAttributes d)) \<longleftrightarrow>
      HasChange d ''enable_deletion_protection'' \<or> rd_IsNewResource d"
    using al [of "''deletion_protection.enabled''"] by (auto simp: updateAttributes_keys)
  from k1 k2 k3 k4 k5 new sent show ?thesis by blast
qed


lemmas update_eval =
  resourceAwsLbUpdate_def updateSteps_def updateTagsStep_def updateAttributesStep_def
  updateSecurityGroupsStep_def updateSubnetsStep_def updateIpAddressTypeStep_def
  updateAttributes_def accessLogsAttributes_def typeAttributes_def deletionProtectionAttributes_def
  HasChange_def sameMap_def invoke_def resourceAwsLbRead_def flattenAwsLbResource_def
  flattenLoadBalancer_def Set_fields_def isLoadBalancerNotFound_def
  LoadBalancerTypeEnumApplication_def LoadBalancerTypeEnumGateway_def LoadBalancerTypeEnumNetwork_def
  example_meta_def example_data_def example_fields_def FormatBool_def Sprintf_d_def decimal.simps digit_char_def
  attribute_def

theorem variant_attributes_emitted_witness:
  "attribute ''idle_timeout.timeout_seconds'' ''60''
     \<in> set (updateAttributes (example_data\<lparr>rd_IsNewResource := True\<rparr>)) \<and>
   ''load_balancing.cross_zone.enabled''
     \<notin> set (map (\<lambda>a. StringValue (Key a)) (updateAttributes (example_data\<lparr>rd_IsNewResource := True\<rparr>))) \<and>
   ''idle_timeout.timeout_seconds''
     \<notin> set (map (\<lambda>a. StringValue (Key a))
          (updateAttributes (example_data\<lparr>rd_IsNewResource := True,
             rd_cur := example_fields\<lparr>load_balancer_type := ''network''\<rparr>\<rparr>))) \<and>
   ModifyLoadBalancerAttributes example_arn (updateAttributes (example_data\<lparr>rd_IsNewResource := True\<rparr>))
     \<in> set (drop (length ([] :: call list))
          (snd (snd (resourceAwsLbUpdate example_meta (example_data\<lparr>rd_IsNewResource := True\<rparr>) []))))"
proof -
  let ?new = "example_data\<lparr>rd_IsNewResource := True\<rparr>"
  let ?nlb = "example_data\<lparr>rd_IsNewResource := True,
             rd_cur := example_fields\<lparr>load_balancer_type := ''network''\<rparr>\<rparr>"
  have 1: "load_balancer_type (rd_cur ?new) = ''application'' \<and> rd_IsNewResource ?new \<and>
      Sprintf_d (idle_timeout (rd_cur ?new)) = ''60''"
    by (simp add: example_data_def example_fields_def Sprintf_d_def decimal.simps digit_char_def)
  have 2: "load_balancer_type (rd_cur ?nlb) = ''network''"
    by (simp add: example_data_def example_fields_def)
  have 3: "\<exists>as. ModifyLoadBalancerAttributes example_arn as
      \<in> set (drop (length ([] :: call list)) (snd (snd (resourceAwsLbUpdate example_meta ?new []))))"
    by (simp add: update_eval Let_def)
  have 4: "rd_Id ?new = example_arn" by (simp add: example_data_def)
  from 1 2 3 4 variant_attributes_emitted [of ?new "[]" example_meta]
    variant_attributes_emitted [of ?nlb "[]" example_meta]
  show ?thesis by auto
qed

lemma updateSteps_prefix:
  "\<exists>more. snd (snd (resourceAwsLbUpdate m d tr)) = snd (updateSteps m d tr) @ more"
proof -
  obtain e1 t1 where s: "updateSteps m d tr = (e1, t1)" by (cases "updateSteps m d tr")
  show ?thesis
  proof (cases e1)
    case (Some err)
    with s show ?thesis by (simp add: resourceAwsLbUpdate_def)
  next
    case None
    note n1 = this
    obtain e2 t2 where w: "LoadBalancerActive m (rd_Id d) (rd_TimeoutUpdate d) t1 = (e2, t2)"
      by (cases "LoadBalancerActive m (rd_Id d) (rd_TimeoutUpdate d) t1")
    from LoadBalancerActive_trace [OF w] obtain n where
      n: "t2 = t1 @ replicate n (RefreshLoadBalancerState (rd_Id d))" by blast
    show ?thesis
    proof (cases e2)
      case (Some err)
      with s n1 w n show ?thesis by (simp add: resourceAwsLbUpdate_def)
    next
      case None
      with s n1 w have u: "resourceAwsLbUpdate m d tr = resourceAwsLbRead m d t2"
        by (simp add: resourceAwsLbUpdate_def)
      from resourceAwsLbRead_trace [of m d t2] obtain rest where
        "snd (snd (resourceAwsLbRead m d t2)) = t2 @ DescribeLoadBalancers [rd_Id d] # rest" by blast
      with u n s show ?thesis by simp
    qed
  qed
qed

lemma SetSubnets_sent:
  assumes "\<forall>t. r_Elbv2UpdateTags m t = None" and "\<forall>t. r_ModifyLoadBalancerAttributes m t = None"
    and "\<forall>t. r_SetSecurityGroups m t = None"
    and "\<not> rd_IsNewResource d" and "HasChange d ''subnets''"
  shows "SetSubnets (rd_Id d) (subnets (rd_cur d))
           \<in> set (drop (length tr) (snd (snd (resourceAwsLbUpdate m d tr))))"
proof -
  let ?c = "SetSubnets (rd_Id d) (subnets (rd_cur d))"
  have "fst (updateTagsStep m d tr) = None"
    using assms(1) by (simp add: updateTagsStep_def invoke_def)
  then obtain t1 where s1: "updateTagsStep m d tr = (None, t1)"
    by (cases "updateTagsStep m d tr") auto
  have "fst (updateAttributesStep m d t1) = None"
    using assms(2) by (simp add: updateAttributesStep_def invoke_def Let_def)
  then obtain t2 where s2: "updateAttributesStep m d t1 = (None, t2)"
    by (cases "updateAttributesStep m d t1") auto
  have "fst (updateSecurityGroupsStep m d t2) = None"
    using assms(3) by (simp add: updateSecurityGroupsStep_def invoke_def)
  then obtain t3 where s3: "updateSecurityGroupsStep m d t2 = (None, t3)"
    by (cases "updateSecurityGroupsStep m d t2") auto
  obtain e4 t4 where s4: "updateSubnetsStep m d t3 = (e4, t4)" by (cases "updateSubnetsStep m d t3")
  have t4: "t4 = t3 @ [?c]"
    using updateSubnetsStep_trace [of m d t3] s4 assms(4,5) by simp
  have "\<exists>more. snd (updateSteps m d tr) = t3 @ [?c] @ more"
  proof (cases e4)
    case None
    with s1 s2 s3 s4 have "updateSteps m d tr = updateIpAddressTypeStep m d t4"
      by (simp add: updateSteps_def)
    then show ?thesis using updateIpAddressTypeStep_trace [of m d t4] t4 by simp
  next
    case (Some err)
    with s1 s2 s3 s4 have "updateSteps m d tr = (Some err, t4)" by (simp add: updateSteps_def)
    then show ?thesis using t4 by simp
  qed
  then obtain more where more: "snd (updateSteps m d tr) = t3 @ [?c] @ more" by blast
  have "\<exists>pre. t3 = tr @ pre"
    using updateTagsStep_trace [of m d tr] updateAttributesStep_trace [of m d t1]
      updateSecurityGroupsStep_trace [of m d t2] s1 s2 s3 by simp
  then obtain pre where pre: "t3 = tr @ pre" by blast
  from updateSteps_prefix [of m d tr] obtain more' where
    "snd (snd (resourceAwsLbUpdate m d tr)) = snd (updateSteps m d tr) @ more'" by blast
  with more pre have "drop (length tr) (snd (snd (resourceAwsLbUpdate m d tr))) = pre @ [?c] @ more @ more'"
    by simp
  then show ?thesis by simp
qed

lemma SetSubnets_only_changed:
  assumes "SetSubnets i s \<in> set (drop (length tr) (snd (snd (resourceAwsLbUpdate m d tr))))"
  shows "\<not> rd_IsNewResource d \<and> HasChange d ''subnets'' \<and> i = rd_Id d \<and> s = subnets (rd_cur d)"
proof -
  from assms have "SetSubnets i s \<in> set (spec_update_calls d)"
    by (rule update_calls_of_trace) simp
  then show ?thesis by (auto simp: spec_update_calls_def split: if_splits)
qed

lemma resourceAwsLbCreate_no_SetSubnets:
  assumes "rd_IsNewResource d"
  shows "SetSubnets i s \<notin> set (drop (length tr) (snd (snd (resourceAwsLbCreate m d tr))))"
proof -
  let ?c = "CreateLoadBalancer (createLoadBalancerInput m d)"
  let ?d1 = "Set_fields d (\<lambda>f. f\<lparr>name := createName m d\<rparr>)"
  show ?thesis
  proof (cases "r_CreateLoadBalancer m (tr @ [?c])")
    case (Inl err)
    then show ?thesis by (simp add: resourceAwsLbCreate_def invoke_def Let_def)
  next
    case (Inr lbs)
    show ?thesis
    proof (cases "\<exists>lb. lbs = [lb]")
      case False
      with Inr show ?thesis
        by (auto simp: resourceAwsLbCreate_def invoke_def Let_def split: list.splits)
    next
      case True
      then obtain lb where lb: "lbs = [lb]" by blast
      let ?d2 = "?d1\<lparr>rd_Id := StringValue (LoadBalancerArn lb)\<rparr>"
      have new: "rd_IsNewResource ?d2" using assms by (simp add: Set_fields_def)
      obtain e2 t2 where w: "LoadBalancerActive m (StringValue (LoadBalancerArn lb)) (rd_TimeoutCreate ?d2) (tr @ [?c]) = (e2, t2)"
        by (cases "LoadBalancerActive m (StringValue (LoadBalancerArn lb)) (rd_TimeoutCreate ?d2) (tr @ [?c])")
      from LoadBalancerActive_trace [OF w] obtain n where
        n: "t2 = (tr @ [?c]) @ replicate n (RefreshLoadBalancerState (StringValue (LoadBalancerArn lb)))"
        by blast
      show ?thesis
      proof (cases e2)
        case (Some err)
        with Inr lb w n show ?thesis
          by (simp add: resourceAwsLbCreate_def invoke_def Let_def)
      next
        case None
        with Inr lb w have c: "resourceAwsLbCreate m d tr = resourceAwsLbUpdate m ?d2 t2"
          by (simp add: resourceAwsLbCreate_def invoke_def Let_def)
        from resourceAwsLbUpdate_trace [of m ?d2 t2] obtain k j rest where
          u: "snd (snd (resourceAwsLbUpdate m ?d2 t2)) =
              t2 @ take k (spec_update_calls ?d2) @ replicate j (RefreshLoadBalancerState (rd_Id ?d2)) @ rest"
          and r: "\<forall>c\<in>set rest. \<not> isUpdateCall c" by blast
        have "SetSubnets i s \<notin> set (spec_update_calls ?d2)"
          using new by (auto simp: spec_update_calls_def split: if_splits)
        then have "SetSubnets i s \<notin> set (take k (spec_update_calls ?d2))"
          by (auto dest: in_set_takeD)
        moreover have "SetSubnets i s \<notin> set rest" using r by auto
        ultimately show ?thesis using c u n by auto
      qed
    qed
  qed
qed

text \<open>
  Claim C7. For a resource marked new, neither the update nor the create that ends in
  it sends \<open>SetSubnets\<close>, whether or not \<open>subnets\<close> counts as changed. For a resource
  that is not new and whose subnets changed, \<open>SetSubnets\<close> is sent with the subnets of the
  plan once the update reaches that step, that is when the remote service accepts the
  tag, attribute and security group calls before it. The other steps are as they are
  without the suppression: when the steps of a new resource succeed, the calls are the
  tag, attribute, security group and address type calls, each under its own condition,
  and the tag, security group and address type steps do not read the new-resource mark.
\<close>

theorem subnets_not_resent_for_new_resource:
  "(rd_IsNewResource d \<longrightarrow>
      (\<forall>i s. SetSubnets i s \<notin> set (drop (length tr) (snd (snd (resourceAwsLbUpdate m d tr)))) \<and>
             SetSubnets i s \<notin> set (drop (length tr) (snd (snd (resourceAwsLbCreate m d tr)))))) \<and>
   (\<not> rd_IsNewResource d \<and> HasChange d ''subnets'' \<and> (\<forall>t. r_Elbv2UpdateTags m t = None) \<and>
      (\<forall>t. r_ModifyLoadBalancerAttributes m t = None) \<and> (\<forall>t. r_SetSecurityGroups m t = None) \<longrightarrow>
      SetSubnets (rd_Id d) (subnets (rd_cur d))
        \<in> set (drop (length tr) (snd (snd (resourceAwsLbUpdate m d tr))))) \<and>
   (rd_IsNewResource d \<and> fst (updateSteps m d tr) = None \<longrightarrow>
      snd (updateSteps m d tr) =
        tr @
        (if HasChange d ''tags'' then [UpdateTags (rd_Id d) (tags (rd_state d)) (tags (rd_plan d))] else []) @
        (if updateAttributes d \<noteq> [] then [ModifyLoadBalancerAttributes (rd_Id d) (updateAttributes d)] else []) @
        (if HasChange d ''security_groups'' then [SetSecurityGroups (rd_Id d) (security_groups (rd_cur d))] else []) @
        (if HasChange d ''ip_address_type'' then [SetIpAddressType (rd_Id d) (ip_address_type (rd_cur d))] else [])) \<and>
   updateTagsStep m (d\<lparr>rd_IsNewResource := b\<rparr>) tr = updateTagsStep m d tr \<and>
   updateSecurityGroupsStep m (d\<lparr>rd_IsNewResource := b\<rparr>) tr = updateSecurityGroupsStep m d tr \<and>
   updateIpAddressTypeStep m (d\<lparr>rd_IsNewResource := b\<rparr>) tr = updateIpAddressTypeStep m d tr"
proof -
  have 1: "rd_IsNewResource d \<longrightarrow>
      (\<forall>i s. SetSubnets i s \<notin> set (drop (length tr) (snd (snd (resourceAwsLbUpdate m d tr)))) \<and>
             SetSubnets i s \<notin> set (drop (length tr) (snd (snd (resourceAwsLbCreate m d tr)))))"
    using SetSubnets_only_changed [of _ _ tr m d] resourceAwsLbCreate_no_SetSubnets [of d _ _ tr m]
    by blast
  have 2: "\<not> rd_IsNewResource d \<and> HasChange d ''subnets'' \<and> (\<forall>t. r_Elbv2UpdateTags m t = None) \<and>
      (\<forall>t. r_ModifyLoadBalancerAttributes m t = None) \<and> (\<forall>t. r_SetSecurityGroups m t = None) \<longrightarrow>
      SetSubnets (rd_Id d) (subnets (rd_cur d))
        \<in> set (drop (length tr) (snd (snd (resourceAwsLbUpdate m d tr))))"
    using SetSubnets_sent [of m d tr] by blast
  have 3: "rd_IsNewResource d \<and> fst (updateSteps m d tr) = None \<longrightarrow>
      snd (updateSteps m d tr) =
        tr @
        (if HasChange d ''tags'' then [UpdateTags (rd_Id d) (tags (rd_state d)) (tags (rd_plan d))] else []) @
        (if updateAttributes d \<noteq> [] then [ModifyLoadBalancerAttributes (rd_Id d) (updateAttributes d)] else []) @
        (if HasChange d ''security_groups'' then [SetSecurityGroups (rd_Id d) (security_groups (rd_cur d))] else []) @
        (if HasChange d ''ip_address_type'' then [SetIpAddressType (rd_Id d) (ip_address_type (rd_cur d))] else [])"
    using updateSteps_trace [of m d tr] by (auto simp: spec_update_calls_def)
  have 4: "updateTagsStep m (d\<lparr>rd_IsNewResource := b\<rparr>) tr = updateTagsStep m d tr \<and>
      updateSecurityGroupsStep m (d\<lparr>rd_IsNewResource := b\<rparr>) tr = updateSecurityGroupsStep m d tr \<and>
      updateIpAddressTypeStep m (d\<lparr>rd_IsNewResource := b\<rparr>) tr = updateIpAddressTypeStep m d tr"
    by (auto simp: updateTagsStep_def updateSecurityGroupsStep_def updateIpAddressTypeStep_def
        HasChange_def split: prod.splits option.splits)
  from 1 2 3 4 show ?thesis by blast
qed

theorem subnets_not_resent_for_new_resource_witness:
  "SetSubnets example_arn [''subnet-1'']
     \<notin> set (drop (length ([] :: call list))
          (snd (snd (resourceAwsLbUpdate example_meta
             (example_data\<lparr>rd_IsNewResource := True, rd_state := example_fields\<lparr>subnets := []\<rparr>\<rparr>) [])))) \<and>
   SetSubnets example_arn [''subnet-1'']
     \<in> set (drop (length ([] :: call list))
          (snd (snd (resourceAwsLbUpdate example_meta
             (example_data\<lparr>rd_state := example_fields\<lparr>subnets := []\<rparr>\<rparr>) []))))"
proof -
  let ?new = "example_data\<lparr>rd_IsNewResource := True, rd_state := example_fields\<lparr>subnets := []\<rparr>\<rparr>"
  let ?old = "example_data\<lparr>rd_state := example_fields\<lparr>subnets := []\<rparr>\<rparr>"
  have 1: "rd_IsNewResource ?new \<and> HasChange ?new ''subnets''"
    by (simp add: example_data_def example_fields_def HasChange_def)
  have 2: "\<not> rd_IsNewResource ?old \<and> HasChange ?old ''subnets'' \<and>
      rd_Id ?old = example_arn \<and> subnets (rd_cur ?old) = [''subnet-1'']"
    by (simp add: example_data_def example_fields_def HasChange_def)
  have 3: "(\<forall>t. r_Elbv2UpdateTags example_meta t = None) \<and>
      (\<forall>t. r_ModifyLoadBalancerAttributes example_meta t = None) \<and>
      (\<forall>t. r_SetSecurityGroups example_meta t = None)"
    by (simp add: example_meta_def)
  from 1 2 3 subnets_not_resent_for_new_resource [where d = ?new and tr = "[]" and m = example_meta]
    subnets_not_resent_for_new_resource [where d = ?old and tr = "[]" and m = example_meta]
  show ?thesis by metis
qed

text \<open>
  Claim C8. An update of a resource that is not new and whose planned state is its prior
  state passes all five steps without a call: among the calls of the update there is no
  tag update, no attribute modification, no security group, subnet or address type call.
\<close>

theorem unchanged_update_sends_nothing:
  assumes "rd_state d = rd_plan d" and "\<not> rd_IsNewResource d"
  shows "updateSteps m d tr = (None, tr) \<and>
         (\<forall>c \<in> set (drop (length tr) (snd (snd (resourceAwsLbUpdate m d tr)))). \<not> isUpdateCall c)"
proof -
  have none: "spec_update_calls d = []" using assms by (rule spec_update_calls_unchanged)
  have attrs: "updateAttributes d = []"
    using none by (simp add: spec_update_calls_def split: if_splits)
  have "updateSteps m d tr = (None, tr)"
    using assms attrs
    by (simp add: updateSteps_def updateTagsStep_def updateAttributesStep_def
        updateSecurityGroupsStep_def updateSubnetsStep_def updateIpAddressTypeStep_def
        HasChange_unchanged)
  moreover have "\<forall>c \<in> set (drop (length tr) (snd (snd (resourceAwsLbUpdate m d tr)))). \<not> isUpdateCall c"
    using update_calls_of_trace [of _ tr m d] none by auto
  ultimately show ?thesis by blast
qed

theorem unchanged_update_sends_nothing_witness:
  "updateSteps example_meta example_data [] = (None, []) \<and>
   filter isUpdateCall
     (drop (length ([] :: call list)) (snd (snd (resourceAwsLbUpdate example_meta example_data [])))) = [] \<and>
   snd (snd (resourceAwsLbUpdate example_meta example_data [])) =
     [RefreshLoadBalancerState example_arn, DescribeLoadBalancers [example_arn],
      ListTags example_arn, DescribeLoadBalancerAttributes example_arn]"
proof -
  have 1: "rd_state example_data = rd_plan example_data \<and> \<not> rd_IsNewResource example_data"
    by (simp add: example_data_def)
  have 2: "snd (snd (resourceAwsLbUpdate example_meta example_data [])) =
     [RefreshLoadBalancerState example_arn, DescribeLoadBalancers [example_arn],
      ListTags example_arn, DescribeLoadBalancerAttributes example_arn]"
    by (simp add: update_eval Let_def)
  from 1 unchanged_update_sends_nothing [where d = example_data and m = example_meta and tr = "[]"]
  have "updateSteps example_meta example_data [] = (None, []) \<and>
      (\<forall>c \<in> set (drop (length ([] :: call list))
                  (snd (snd (resourceAwsLbUpdate example_meta example_data [])))). \<not> isUpdateCall c)"
    by blast
  with 2 show ?thesis by (simp add: filter_empty_conv)
qed



section \<open>The two attachment representations\<close>

lemma resourceAwsLbCreate_first_call:
  "\<exists>more. snd (snd (resourceAwsLbCreate m d tr)) = tr @ CreateLoadBalancer (createLoadBalancerInput m d) # more"
proof -
  let ?c = "CreateLoadBalancer (createLoadBalancerInput m d)"
  let ?d1 = "Set_fields d (\<lambda>f. f\<lparr>name := createName m d\<rparr>)"
  show ?thesis
  proof (cases "r_CreateLoadBalancer m (tr @ [?c])")
    case (Inl err)
    then show ?thesis by (simp add: resourceAwsLbCreate_def invoke_def Let_def)
  next
    case (Inr lbs)
    show ?thesis
    proof (cases "\<exists>lb. lbs = [lb]")
      case False
      with Inr show ?thesis
        by (auto simp: resourceAwsLbCreate_def invoke_def Let_def split: list.splits)
    next
      case True
      then obtain lb where lb: "lbs = [lb]" by blast
      let ?d2 = "?d1\<lparr>rd_Id := StringValue (LoadBalancerArn lb)\<rparr>"
      obtain e2 t2 where w: "LoadBalancerActive m (StringValue (LoadBalancerArn lb)) (rd_TimeoutCreate ?d2) (tr @ [?c]) = (e2, t2)"
        by (cases "LoadBalancerActive m (StringValue (LoadBalancerArn lb)) (rd_TimeoutCreate ?d2) (tr @ [?c])")
      from LoadBalancerActive_trace [OF w] obtain n where
        n: "t2 = (tr @ [?c]) @ replicate n (RefreshLoadBalancerState (StringValue (LoadBalancerArn lb)))"
        by blast
      show ?thesis
      proof (cases e2)
        case (Some err)
        with Inr lb w n show ?thesis
          by (simp add: resourceAwsLbCreate_def invoke_def Let_def)
      next
        case None
        with Inr lb w have c: "resourceAwsLbCreate m d tr = resourceAwsLbUpdate m ?d2 t2"
          by (simp add: resourceAwsLbCreate_def invoke_def Let_def)
        from resourceAwsLbUpdate_trace [of m ?d2 t2] obtain k j rest where
          "snd (snd (resourceAwsLbUpdate m ?d2 t2)) =
              t2 @ take k (spec_update_calls ?d2) @ replicate j (RefreshLoadBalancerState (rd_Id ?d2)) @ rest"
          by blast
        with c n show ?thesis by simp
      qed
    qed
  qed
qed

text \<open>
  Claim C4, as the code has it. After a read that finds the load balancer, the two
  attachment fields are filled from the same list of availability zones: both carry data
  when the remote record has a zone, and neither does when it has none. The request that
  create sends carries each representation exactly when it is configured, the one
  independently of the other.
\<close>

theorem attachment_representations:
  "(r_DescribeLoadBalancers m (tr @ [DescribeLoadBalancers [rd_Id d]]) = Inr [lb] \<longrightarrow>
      (subnets (rd_cur (fst (snd (resourceAwsLbRead m d tr)))) = [] \<longleftrightarrow> AvailabilityZones lb = []) \<and>
      (subnet_mapping (rd_cur (fst (snd (resourceAwsLbRead m d tr)))) = [] \<longleftrightarrow> AvailabilityZones lb = [])) \<and>
   (\<exists>more. snd (snd (resourceAwsLbCreate m d tr)) =
      tr @ CreateLoadBalancer (createLoadBalancerInput m d) # more) \<and>
   Input_Subnets (createLoadBalancerInput m d) =
     (if subnets (rd_cur d) = [] then None else Some (subnets (rd_cur d))) \<and>
   Input_SubnetMappings (createLoadBalancerInput m d) =
     (if subnet_mapping (rd_cur d) = [] then None
      else Some (map expandSubnetMapping (subnet_mapping (rd_cur d))))"
proof -
  have read: "r_DescribeLoadBalancers m (tr @ [DescribeLoadBalancers [rd_Id d]]) = Inr [lb] \<longrightarrow>
      (subnets (rd_cur (fst (snd (resourceAwsLbRead m d tr)))) = [] \<longleftrightarrow> AvailabilityZones lb = []) \<and>
      (subnet_mapping (rd_cur (fst (snd (resourceAwsLbRead m d tr)))) = [] \<longleftrightarrow> AvailabilityZones lb = [])"
  proof
    assume "r_DescribeLoadBalancers m (tr @ [DescribeLoadBalancers [rd_Id d]]) = Inr [lb]"
    then have "resourceAwsLbRead m d tr =
        flattenAwsLbResource m d lb (tr @ [DescribeLoadBalancers [rd_Id d]])"
      by (simp add: resourceAwsLbRead_def invoke_def)
    then show "(subnets (rd_cur (fst (snd (resourceAwsLbRead m d tr)))) = [] \<longleftrightarrow> AvailabilityZones lb = []) \<and>
      (subnet_mapping (rd_cur (fst (snd (resourceAwsLbRead m d tr)))) = [] \<longleftrightarrow> AvailabilityZones lb = [])"
      using flattenAwsLbResource_attachments [of m d lb "tr @ [DescribeLoadBalancers [rd_Id d]]"]
      by (simp add: flattenLoadBalancer_def Set_fields_def flattenSubnetsFromAvailabilityZones_def
          flattenSubnetMappingsFromAvailabilityZones_def)
  qed
  have input: "Input_Subnets (createLoadBalancerInput m d) =
     (if subnets (rd_cur d) = [] then None else Some (subnets (rd_cur d))) \<and>
   Input_SubnetMappings (createLoadBalancerInput m d) =
     (if subnet_mapping (rd_cur d) = [] then None
      else Some (map expandSubnetMapping (subnet_mapping (rd_cur d))))"
    by (simp add: createLoadBalancerInput_def Let_def)
  from read input resourceAwsLbCreate_first_call [of m d tr] show ?thesis by blast
qed

theorem attachment_representations_witness:
  "subnets (rd_cur (fst (snd (resourceAwsLbRead example_meta
      (example_data\<lparr>rd_cur := example_fields\<lparr>subnets := []\<rparr>\<rparr>) [])))) \<noteq> [] \<and>
   subnet_mapping (rd_cur (fst (snd (resourceAwsLbRead example_meta
      (example_data\<lparr>rd_cur := example_fields\<lparr>subnets := []\<rparr>\<rparr>) [])))) \<noteq> []"
proof -
  let ?d = "example_data\<lparr>rd_cur := example_fields\<lparr>subnets := []\<rparr>\<rparr>"
  have 1: "r_DescribeLoadBalancers example_meta ([] @ [DescribeLoadBalancers [rd_Id ?d]]) = Inr [example_lb]"
    by (simp add: example_meta_def)
  have 2: "AvailabilityZones example_lb \<noteq> []" by (simp add: example_lb_def)
  from 1 2 attachment_representations [where m = example_meta and d = ?d and tr = "[]" and lb = example_lb]
  show ?thesis by blast
qed

text \<open>
  C4 as the specification states it fails: after the read of \<open>example_data\<close> both
  fields carry data, and the request of a create whose configuration has both a subnet
  and a subnet mapping carries both.
\<close>

theorem both_representations_counterexample:
  "subnets (rd_cur (fst (snd (resourceAwsLbRead example_meta example_data [])))) = [''subnet-1''] \<and>
   subnet_mapping (rd_cur (fst (snd (resourceAwsLbRead example_meta example_data [])))) =
     [\<lparr>subnet_id = ''subnet-1'', ipv6_address = [], outpost_id = [], allocation_id = [],
       private_ipv4_address = []\<rparr>] \<and>
   Input_Subnets (createLoadBalancerInput example_meta
      (example_data\<lparr>rd_cur := example_fields\<lparr>subnet_mapping :=
         [\<lparr>subnet_id = ''subnet-2'', ipv6_address = [], outpost_id = [], allocation_id = ''eipalloc-2'',
           private_ipv4_address = []\<rparr>]\<rparr>\<rparr>)) = Some [''subnet-1''] \<and>
   Input_SubnetMappings (createLoadBalancerInput example_meta
      (example_data\<lparr>rd_cur := example_fields\<lparr>subnet_mapping :=
         [\<lparr>subnet_id = ''subnet-2'', ipv6_address = [], outpost_id = [], allocation_id = ''eipalloc-2'',
           private_ipv4_address = []\<rparr>]\<rparr>\<rparr>)) =
     Some [\<lparr>SubnetMapping_SubnetId = Some ''subnet-2'', SubnetMapping_AllocationId = Some ''eipalloc-2'',
            SubnetMapping_PrivateIPv4Address = None, SubnetMapping_IPv6Address = None\<rparr>]"
proof -
  have read: "resourceAwsLbRead example_meta example_data [] =
      flattenAwsLbResource example_meta example_data example_lb [DescribeLoadBalancers [example_arn]]"
    by (simp add: resourceAwsLbRead_def invoke_def example_meta_def example_data_def)
  have here: "subnets (rd_cur (flattenLoadBalancer example_data example_lb)) = [''subnet-1''] \<and>
      subnet_mapping (rd_cur (flattenLoadBalancer example_data example_lb)) =
        [\<lparr>subnet_id = ''subnet-1'', ipv6_address = [], outpost_id = [], allocation_id = [],
          private_ipv4_address = []\<rparr>]"
    by (simp add: flattenLoadBalancer_def Set_fields_def flattenSubnetsFromAvailabilityZones_def
        flattenSubnetMappingsFromAvailabilityZones_def example_lb_def example_zone_def StringValue_def
        subnet_mapping_block_def block_field_def)
  have input: "Input_Subnets (createLoadBalancerInput example_meta
      (example_data\<lparr>rd_cur := example_fields\<lparr>subnet_mapping :=
         [\<lparr>subnet_id = ''subnet-2'', ipv6_address = [], outpost_id = [], allocation_id = ''eipalloc-2'',
           private_ipv4_address = []\<rparr>]\<rparr>\<rparr>)) = Some [''subnet-1''] \<and>
   Input_SubnetMappings (createLoadBalancerInput example_meta
      (example_data\<lparr>rd_cur := example_fields\<lparr>subnet_mapping :=
         [\<lparr>subnet_id = ''subnet-2'', ipv6_address = [], outpost_id = [], allocation_id = ''eipalloc-2'',
           private_ipv4_address = []\<rparr>]\<rparr>\<rparr>)) =
     Some [\<lparr>SubnetMapping_SubnetId = Some ''subnet-2'', SubnetMapping_AllocationId = Some ''eipalloc-2'',
            SubnetMapping_PrivateIPv4Address = None, SubnetMapping_IPv6Address = None\<rparr>]"
    by (simp add: createLoadBalancerInput_def Let_def example_data_def example_fields_def
        expandSubnetMapping_def)
  from read here input
    flattenAwsLbResource_attachments [of example_meta example_data example_lb
      "[DescribeLoadBalancers [example_arn]]"]
  show ?thesis by simp
qed

section \<open>Properties of the delete\<close>

text \<open>
  Claim C9. The delete returns an error exactly when the \<open>DeleteLoadBalancer\<close> call
  does, and then that error, wrapped. When the call succeeds the delete returns no error
  whatever the two cleanup phases do: an error of the cleanup of the owned network
  interfaces and an error of the wait for the interfaces of the platform (the leftover
  interfaces that the query after the deadline finds among them) each become a warning
  of the log and nothing else.
\<close>

theorem delete_result:
  "fst (resourceAwsLbDelete m d tr) =
     (case r_DeleteLoadBalancer m (tr @ [DeleteLoadBalancer (rd_Id d)]) of
        None \<Rightarrow> None
      | Some err \<Rightarrow> Some (Wrap ''Error deleting LB: %s'' [] err)) \<and>
   (r_DeleteLoadBalancer m (tr @ [DeleteLoadBalancer (rd_Id d)]) = None \<longrightarrow>
      snd (snd (resourceAwsLbDelete m d tr)) =
        (case fst (cleanupLBNetworkInterfaces m (rd_Id d) (tr @ [DeleteLoadBalancer (rd_Id d)])) of
           Some e \<Rightarrow> [Warn ''[WARN] Failed to cleanup ENIs for ALB %q: %#v'' e]
         | None \<Rightarrow> []) @
        (case fst (waitForNLBNetworkInterfacesToDetach m (rd_Id d)
                     (snd (cleanupLBNetworkInterfaces m (rd_Id d) (tr @ [DeleteLoadBalancer (rd_Id d)])))) of
           Some e \<Rightarrow> [Warn ''[WARN] Failed to wait for ENIs to disappear for NLB %q: %#v'' e]
         | None \<Rightarrow> []))"
  by (simp add: resourceAwsLbDelete_def invoke_def split: option.splits prod.splits)

theorem delete_result_witness:
  "fst (resourceAwsLbDelete
          (example_meta\<lparr>r_DescribeNetworkInterfaces := (\<lambda>tr. Inr [''eni-1'']),
                         r_detachNetworkInterfaces := (\<lambda>tr. Some (ApiError ''OperationNotPermitted''))\<rparr>)
          example_data []) = None \<and>
   snd (snd (resourceAwsLbDelete
          (example_meta\<lparr>r_DescribeNetworkInterfaces := (\<lambda>tr. Inr [''eni-1'']),
                         r_detachNetworkInterfaces := (\<lambda>tr. Some (ApiError ''OperationNotPermitted''))\<rparr>)
          example_data [])) =
     [Warn ''[WARN] Failed to cleanup ENIs for ALB %q: %#v'' (ApiError ''OperationNotPermitted''),
      Warn ''[WARN] Failed to wait for ENIs to disappear for NLB %q: %#v''
        (Errorf ''Error waiting for %d ENIs of %q to clean up'' [''1'', example_arn])]"
proof -
  let ?m = "example_meta\<lparr>r_DescribeNetworkInterfaces := (\<lambda>tr. Inr [''eni-1'']),
                         r_detachNetworkInterfaces := (\<lambda>tr. Some (ApiError ''OperationNotPermitted''))\<rparr>"
  have nm: "getLbNameFromArn example_arn = Inr ''app/my-lb/abcdef0123456789''"
    unfolding example_arn_def by code_simp
  have id: "rd_Id example_data = example_arn" by (simp add: example_data_def)
  have 1: "r_DeleteLoadBalancer ?m ([] @ [DeleteLoadBalancer (rd_Id example_data)]) = None"
    by (simp add: example_meta_def)
  have 2: "cleanupLBNetworkInterfaces ?m example_arn [DeleteLoadBalancer example_arn] =
      (Some (ApiError ''OperationNotPermitted''),
       [DeleteLoadBalancer example_arn,
        DescribeNetworkInterfaces [(''attachment.instance-owner-id'', [''amazon-elb'']),
                                   (''description'', [''ELB app/my-lb/abcdef0123456789''])],
        DetachNetworkInterfaces [''eni-1'']])"
    by (simp add: cleanupLBNetworkInterfaces_def nm invoke_def example_meta_def)
  have 3: "fst (waitForNLBNetworkInterfacesToDetach ?m example_arn
      [DeleteLoadBalancer example_arn,
        DescribeNetworkInterfaces [(''attachment.instance-owner-id'', [''amazon-elb'']),
                                   (''description'', [''ELB app/my-lb/abcdef0123456789''])],
        DetachNetworkInterfaces [''eni-1'']]) =
      Some (Errorf ''Error waiting for %d ENIs of %q to clean up'' [''1'', example_arn])"
    by (simp add: waitForNLBNetworkInterfacesToDetach_def nm invoke_def example_meta_def
        describeAttachedInterfaces_def isResourceTimeoutError_def Let_def Sprintf_d_def decimal.simps digit_char_def)
  from 1 2 3 id delete_result [where m = ?m and d = example_data and tr = "[]"]
  show ?thesis by simp
qed

end
